theory Spec2Isabelle
  imports Main "HOL-Library.Char_ord" "HOL-Library.List_Lexorder"
begin

section \<open>The relational schema (schema.prisma)\<close>

text \<open>
  The enums and models of the Prisma schema. A model is a record, a table is the list of
  its rows in insertion order, an optional column (\<^verbatim>\<open>String?\<close>) is an \<open>option\<close>, a
  \<^verbatim>\<open>DateTime\<close> is a number of milliseconds. The billing mirror (SubscriptionPlan,
  Subscription, Payment, Invoice), EventCategory and the billing columns of Organization
  are left out: no route handler reads or writes them and no referential action links
  them to the tables below, except \<^verbatim>\<open>Event.categoryId\<close>, which is kept as a column.
\<close>

datatype Role = ORGANIZATION_ADMIN | ORGANIZATION_EDITOR | ORGANIZATION_VIEWER | INDIVIDUAL_USER

datatype EventStatus = DRAFT | UPCOMING | ACTIVE | COMPLETED | ARCHIVED

datatype PhotoReviewStatus = PENDING | APPROVED | REJECTED

text \<open>\<^verbatim>\<open>FaceMatchingTaskStatus\<close>: the constructors carry a prefix, since \<^verbatim>\<open>PENDING\<close>
  is also a \<^verbatim>\<open>PhotoReviewStatus\<close>.\<close>

datatype FaceMatchingTaskStatus = TASK_PENDING | TASK_PROCESSING | TASK_COMPLETED | TASK_FAILED

datatype ConsentType = PHOTO_STORAGE | FACIAL_RECOGNITION | DATA_SHARING

datatype ConsentActionStatus = GRANTED | REVOKED

record User =
  u_id :: string
  u_externalSystemId :: "string option"
  u_email :: string
  u_passwordHash :: string
  u_name :: "string option"
  u_profilePhotoUrl :: "string option"
  u_role :: Role
  u_createdAt :: int
  u_updatedAt :: int

record Organization =
  o_id :: string
  o_name :: string

record OrganizationUser =
  ou_id :: string
  ou_userId :: string
  ou_orgId :: string
  ou_createdAt :: int
  ou_updatedAt :: int

record Event =
  ev_id :: string
  ev_orgId :: string
  ev_categoryId :: "string option"
  ev_name :: string
  ev_dateStart :: int
  ev_dateEnd :: "int option"
  ev_status :: EventStatus
  ev_description :: "string option"
  ev_locationName :: "string option"
  ev_locationAddress :: "string option"
  ev_isPublic :: bool
  ev_createdAt :: int
  ev_updatedAt :: int

record Participant =
  p_id :: string
  p_eventId :: string
  p_userId :: "string option"
  p_name :: "string option"
  p_email :: "string option"
  p_registrationStatus :: "string option"
  p_consentStatus :: bool
  p_referencePhotoUrl :: "string option"
  p_createdAt :: int
  p_updatedAt :: int

record EventPhoto =
  ph_id :: string
  ph_eventId :: string
  ph_uploaderUserId :: string
  ph_imageUrl :: string
  ph_thumbnailUrl :: "string option"
  ph_uploadTime :: int
  ph_reviewStatus :: PhotoReviewStatus
  ph_isPublic :: bool
  ph_metadata :: "string option"
  ph_createdAt :: int
  ph_updatedAt :: int

record DetectedFace =
  df_id :: string
  df_photoId :: string
  df_boundingBox :: string
  df_faceDescriptor :: "string option"
  df_createdAt :: int

record PhotoParticipantMatch =
  m_id :: string
  m_photoId :: string
  m_participantId :: string
  m_confidenceScore :: "int option"
  m_matchTime :: int
  m_createdAt :: int

record FaceMatchingTask =
  t_id :: string
  t_eventId :: string
  t_status :: FaceMatchingTaskStatus
  t_startTime :: "int option"
  t_completionTime :: "int option"
  t_awsRequestId :: "string option"
  t_errorDetails :: "string option"
  t_createdAt :: int
  t_updatedAt :: int

record ConsentLog =
  cl_id :: string
  cl_userId :: string
  cl_eventId :: "string option"
  cl_participantId :: "string option"
  cl_type :: ConsentType
  cl_status :: ConsentActionStatus
  cl_timestamp :: int
  cl_details :: "string option"

record store =
  users :: "User list"
  organizations :: "Organization list"
  organizationUsers :: "OrganizationUser list"
  events :: "Event list"
  participants :: "Participant list"
  eventPhotos :: "EventPhoto list"
  detectedFaces :: "DetectedFace list"
  photoParticipantMatches :: "PhotoParticipantMatch list"
  faceMatchingTasks :: "FaceMatchingTask list"
  consentLogs :: "ConsentLog list"

definition empty_store :: store where
  "empty_store = \<lparr>users = [], organizations = [], organizationUsers = [], events = [],
     participants = [], eventPhotos = [], detectedFaces = [], photoParticipantMatches = [],
     faceMatchingTasks = [], consentLogs = []\<rparr>"

text \<open>What the client throws when the store refuses a statement: a violated
  \<^verbatim>\<open>@id\<close>/\<^verbatim>\<open>@unique\<close>/\<^verbatim>\<open>@@unique\<close> (with the columns), a violated
  \<^verbatim>\<open>@relation\<close> (with the column), a \<^verbatim>\<open>delete\<close>/\<^verbatim>\<open>update\<close> whose
  \<^verbatim>\<open>where\<close> selects no row, and an argument of the wrong type.\<close>

datatype prisma_error =
    UniqueConstraintFailed "string list"
  | ForeignKeyConstraintFailed string
  | RecordNotFound
  | ValidationError

subsection \<open>Inserts: primary keys, unique constraints, foreign keys\<close>

text \<open>An optional foreign key is checked only when it is set.\<close>

definition dangling :: "string option \<Rightarrow> string list \<Rightarrow> bool" where
  "dangling ref ids = (case ref of None \<Rightarrow> False | Some k \<Rightarrow> k \<notin> set ids)"

definition user_create :: "User \<Rightarrow> store \<Rightarrow> prisma_error + store" where
  "user_create row s =
     (if \<exists>u \<in> set (users s). u_id u = u_id row then Inl (UniqueConstraintFailed [''id''])
      else if \<exists>u \<in> set (users s). u_externalSystemId row \<noteq> None
                \<and> u_externalSystemId u = u_externalSystemId row
        then Inl (UniqueConstraintFailed [''externalSystemId''])
      else if \<exists>u \<in> set (users s). u_email u = u_email row
        then Inl (UniqueConstraintFailed [''email''])
      else Inr (s\<lparr>users := users s @ [row]\<rparr>))"

definition organization_create :: "Organization \<Rightarrow> store \<Rightarrow> prisma_error + store" where
  "organization_create row s =
     (if \<exists>g \<in> set (organizations s). o_id g = o_id row
        then Inl (UniqueConstraintFailed [''id''])
      else Inr (s\<lparr>organizations := organizations s @ [row]\<rparr>))"

definition organizationUser_create :: "OrganizationUser \<Rightarrow> store \<Rightarrow> prisma_error + store" where
  "organizationUser_create row s =
     (if \<exists>m \<in> set (organizationUsers s). ou_id m = ou_id row
        then Inl (UniqueConstraintFailed [''id''])
      else if \<exists>m \<in> set (organizationUsers s).
                ou_userId m = ou_userId row \<and> ou_orgId m = ou_orgId row
        then Inl (UniqueConstraintFailed [''userId'', ''orgId''])
      else if \<not> (\<exists>u \<in> set (users s). u_id u = ou_userId row)
        then Inl (ForeignKeyConstraintFailed ''userId'')
      else if \<not> (\<exists>g \<in> set (organizations s). o_id g = ou_orgId row)
        then Inl (ForeignKeyConstraintFailed ''orgId'')
      else Inr (s\<lparr>organizationUsers := organizationUsers s @ [row]\<rparr>))"

definition event_create :: "Event \<Rightarrow> store \<Rightarrow> prisma_error + store" where
  "event_create row s =
     (if \<exists>e \<in> set (events s). ev_id e = ev_id row
        then Inl (UniqueConstraintFailed [''id''])
      else if \<not> (\<exists>g \<in> set (organizations s). o_id g = ev_orgId row)
        then Inl (ForeignKeyConstraintFailed ''orgId'')
      else Inr (s\<lparr>events := events s @ [row]\<rparr>))"

definition participant_create :: "Participant \<Rightarrow> store \<Rightarrow> prisma_error + store" where
  "participant_create row s =
     (if \<exists>p \<in> set (participants s). p_id p = p_id row
        then Inl (UniqueConstraintFailed [''id''])
      else if \<not> (\<exists>e \<in> set (events s). ev_id e = p_eventId row)
        then Inl (ForeignKeyConstraintFailed ''eventId'')
      else if dangling (p_userId row) (map u_id (users s))
        then Inl (ForeignKeyConstraintFailed ''userId'')
      else Inr (s\<lparr>participants := participants s @ [row]\<rparr>))"

definition eventPhoto_create :: "EventPhoto \<Rightarrow> store \<Rightarrow> prisma_error + store" where
  "eventPhoto_create row s =
     (if \<exists>p \<in> set (eventPhotos s). ph_id p = ph_id row
        then Inl (UniqueConstraintFailed [''id''])
      else if \<not> (\<exists>e \<in> set (events s). ev_id e = ph_eventId row)
        then Inl (ForeignKeyConstraintFailed ''eventId'')
      else if \<not> (\<exists>u \<in> set (users s). u_id u = ph_uploaderUserId row)
        then Inl (ForeignKeyConstraintFailed ''uploaderUserId'')
      else Inr (s\<lparr>eventPhotos := eventPhotos s @ [row]\<rparr>))"

definition detectedFace_create :: "DetectedFace \<Rightarrow> store \<Rightarrow> prisma_error + store" where
  "detectedFace_create row s =
     (if \<exists>f \<in> set (detectedFaces s). df_id f = df_id row
        then Inl (UniqueConstraintFailed [''id''])
      else if \<not> (\<exists>p \<in> set (eventPhotos s). ph_id p = df_photoId row)
        then Inl (ForeignKeyConstraintFailed ''photoId'')
      else Inr (s\<lparr>detectedFaces := detectedFaces s @ [row]\<rparr>))"

definition photoParticipantMatch_create ::
  "PhotoParticipantMatch \<Rightarrow> store \<Rightarrow> prisma_error + store" where
  "photoParticipantMatch_create row s =
     (if \<exists>m \<in> set (photoParticipantMatches s). m_id m = m_id row
        then Inl (UniqueConstraintFailed [''id''])
      else if \<exists>m \<in> set (photoParticipantMatches s).
                m_photoId m = m_photoId row \<and> m_participantId m = m_participantId row
        then Inl (UniqueConstraintFailed [''photoId'', ''participantId''])
      else if \<not> (\<exists>p \<in> set (eventPhotos s). ph_id p = m_photoId row)
        then Inl (ForeignKeyConstraintFailed ''photoId'')
      else if \<not> (\<exists>p \<in> set (participants s). p_id p = m_participantId row)
        then Inl (ForeignKeyConstraintFailed ''participantId'')
      else Inr (s\<lparr>photoParticipantMatches := photoParticipantMatches s @ [row]\<rparr>))"

definition faceMatchingTask_create :: "FaceMatchingTask \<Rightarrow> store \<Rightarrow> prisma_error + store" where
  "faceMatchingTask_create row s =
     (if \<exists>t \<in> set (faceMatchingTasks s). t_id t = t_id row
        then Inl (UniqueConstraintFailed [''id''])
      else if \<not> (\<exists>e \<in> set (events s). ev_id e = t_eventId row)
        then Inl (ForeignKeyConstraintFailed ''eventId'')
      else Inr (s\<lparr>faceMatchingTasks := faceMatchingTasks s @ [row]\<rparr>))"

definition consentLog_create :: "ConsentLog \<Rightarrow> store \<Rightarrow> prisma_error + store" where
  "consentLog_create row s =
     (if \<exists>c \<in> set (consentLogs s). cl_id c = cl_id row
        then Inl (UniqueConstraintFailed [''id''])
      else if \<not> (\<exists>u \<in> set (users s). u_id u = cl_userId row)
        then Inl (ForeignKeyConstraintFailed ''userId'')
      else if dangling (cl_eventId row) (map ev_id (events s))
        then Inl (ForeignKeyConstraintFailed ''eventId'')
      else if dangling (cl_participantId row) (map p_id (participants s))
        then Inl (ForeignKeyConstraintFailed ''participantId'')
      else Inr (s\<lparr>consentLogs := consentLogs s @ [row]\<rparr>))"

subsection \<open>Deletes: the referential actions \<^verbatim>\<open>onDelete: Cascade\<close> and \<^verbatim>\<open>onDelete: SetNull\<close>\<close>

text \<open>Each helper removes the rows a predicate selects and follows the relations that
  point at them. EventPhoto is referenced by DetectedFace and PhotoParticipantMatch (both
  Cascade); Participant by PhotoParticipantMatch (Cascade) and ConsentLog (SetNull); Event
  by Participant, EventPhoto and FaceMatchingTask (Cascade) and ConsentLog (SetNull).\<close>

definition delete_photos :: "(EventPhoto \<Rightarrow> bool) \<Rightarrow> store \<Rightarrow> store" where
  "delete_photos P s =
     (let gone = map ph_id (filter P (eventPhotos s)) in
      s\<lparr>eventPhotos := filter (\<lambda>p. \<not> P p) (eventPhotos s),
        detectedFaces := filter (\<lambda>f. df_photoId f \<notin> set gone) (detectedFaces s),
        photoParticipantMatches :=
          filter (\<lambda>m. m_photoId m \<notin> set gone) (photoParticipantMatches s)\<rparr>)"

definition null_participantId :: "string list \<Rightarrow> ConsentLog \<Rightarrow> ConsentLog" where
  "null_participantId gone c =
     (case cl_participantId c of
        None \<Rightarrow> c
      | Some k \<Rightarrow> if k \<in> set gone then c\<lparr>cl_participantId := None\<rparr> else c)"

definition null_eventId :: "string list \<Rightarrow> ConsentLog \<Rightarrow> ConsentLog" where
  "null_eventId gone c =
     (case cl_eventId c of
        None \<Rightarrow> c
      | Some k \<Rightarrow> if k \<in> set gone then c\<lparr>cl_eventId := None\<rparr> else c)"

definition null_userId :: "string \<Rightarrow> Participant \<Rightarrow> Participant" where
  "null_userId uid p = (if p_userId p = Some uid then p\<lparr>p_userId := None\<rparr> else p)"

definition delete_participants :: "(Participant \<Rightarrow> bool) \<Rightarrow> store \<Rightarrow> store" where
  "delete_participants P s =
     (let gone = map p_id (filter P (participants s)) in
      s\<lparr>participants := filter (\<lambda>p. \<not> P p) (participants s),
        photoParticipantMatches :=
          filter (\<lambda>m. m_participantId m \<notin> set gone) (photoParticipantMatches s),
        consentLogs := map (null_participantId gone) (consentLogs s)\<rparr>)"

definition delete_events :: "(Event \<Rightarrow> bool) \<Rightarrow> store \<Rightarrow> store" where
  "delete_events P s =
     (let gone = map ev_id (filter P (events s));
          s1 = delete_participants (\<lambda>p. p_eventId p \<in> set gone) s;
          s2 = delete_photos (\<lambda>p. ph_eventId p \<in> set gone) s1
      in s2\<lparr>events := filter (\<lambda>e. \<not> P e) (events s2),
            faceMatchingTasks := filter (\<lambda>t. t_eventId t \<notin> set gone) (faceMatchingTasks s2),
            consentLogs := map (null_eventId gone) (consentLogs s2)\<rparr>)"

text \<open>\<^verbatim>\<open>prisma.eventPhoto.delete({ where: { id } })\<close>\<close>

definition eventPhoto_delete :: "string \<Rightarrow> store \<Rightarrow> prisma_error + store" where
  "eventPhoto_delete pid s =
     (if \<exists>p \<in> set (eventPhotos s). ph_id p = pid
        then Inr (delete_photos (\<lambda>p. ph_id p = pid) s)
      else Inl RecordNotFound)"

definition participant_delete :: "string \<Rightarrow> store \<Rightarrow> prisma_error + store" where
  "participant_delete pid s =
     (if \<exists>p \<in> set (participants s). p_id p = pid
        then Inr (delete_participants (\<lambda>p. p_id p = pid) s)
      else Inl RecordNotFound)"

text \<open>\<^verbatim>\<open>prisma.event.delete({ where: { id, orgId } })\<close>\<close>

definition event_delete :: "string \<Rightarrow> string \<Rightarrow> store \<Rightarrow> prisma_error + store" where
  "event_delete eid oid s =
     (if \<exists>e \<in> set (events s). ev_id e = eid \<and> ev_orgId e = oid
        then Inr (delete_events (\<lambda>e. ev_id e = eid \<and> ev_orgId e = oid) s)
      else Inl RecordNotFound)"

text \<open>User is referenced by OrganizationUser, EventPhoto (the uploader) and ConsentLog,
  all three Cascade, and by Participant, SetNull.\<close>

definition user_delete :: "string \<Rightarrow> store \<Rightarrow> prisma_error + store" where
  "user_delete uid s =
     (if \<exists>u \<in> set (users s). u_id u = uid
        then (let s1 = delete_photos (\<lambda>p. ph_uploaderUserId p = uid) s
              in Inr (s1\<lparr>users := filter (\<lambda>u. u_id u \<noteq> uid) (users s1),
                         organizationUsers :=
                           filter (\<lambda>m. ou_userId m \<noteq> uid) (organizationUsers s1),
                         participants := map (null_userId uid) (participants s1),
                         consentLogs := filter (\<lambda>c. cl_userId c \<noteq> uid) (consentLogs s1)\<rparr>))
      else Inl RecordNotFound)"

text \<open>Organization is referenced by OrganizationUser and Event, both Cascade.\<close>

definition organization_delete :: "string \<Rightarrow> store \<Rightarrow> prisma_error + store" where
  "organization_delete oid s =
     (if \<exists>g \<in> set (organizations s). o_id g = oid
        then (let s1 = delete_events (\<lambda>e. ev_orgId e = oid) s
              in Inr (s1\<lparr>organizations := filter (\<lambda>g. o_id g \<noteq> oid) (organizations s1),
                         organizationUsers :=
                           filter (\<lambda>m. ou_orgId m \<noteq> oid) (organizationUsers s1)\<rparr>))
      else Inl RecordNotFound)"

subsection \<open>Update\<close>

text \<open>The \<^verbatim>\<open>data\<close> argument of \<^verbatim>\<open>prisma.event.update\<close>: every key is optional, and
  the client writes only the keys whose value is not \<^verbatim>\<open>undefined\<close>. \<open>None\<close> is
  \<^verbatim>\<open>undefined\<close>; for a nullable column \<open>Some None\<close> is \<^verbatim>\<open>null\<close>. The column
  \<^verbatim>\<open>updatedAt\<close> carries \<^verbatim>\<open>@updatedAt\<close>.\<close>

record EventUpdateInput =
  upd_name :: "string option"
  upd_dateStart :: "int option"
  upd_dateEnd :: "int option option"
  upd_description :: "string option option"
  upd_locationName :: "string option option"
  upd_locationAddress :: "string option option"
  upd_status :: "EventStatus option"
  upd_isPublic :: "bool option"

definition assign :: "'a option \<Rightarrow> 'a \<Rightarrow> 'a" where
  "assign v old = (case v of None \<Rightarrow> old | Some new \<Rightarrow> new)"

definition apply_update :: "EventUpdateInput \<Rightarrow> int \<Rightarrow> Event \<Rightarrow> Event" where
  "apply_update d now e =
     e\<lparr>ev_name := assign (upd_name d) (ev_name e),
       ev_dateStart := assign (upd_dateStart d) (ev_dateStart e),
       ev_dateEnd := assign (upd_dateEnd d) (ev_dateEnd e),
       ev_description := assign (upd_description d) (ev_description e),
       ev_locationName := assign (upd_locationName d) (ev_locationName e),
       ev_locationAddress := assign (upd_locationAddress d) (ev_locationAddress e),
       ev_status := assign (upd_status d) (ev_status e),
       ev_isPublic := assign (upd_isPublic d) (ev_isPublic e),
       ev_updatedAt := now\<rparr>"

text \<open>\<^verbatim>\<open>prisma.event.update({ where: { id }, data })\<close>\<close>

definition event_update :: "string \<Rightarrow> EventUpdateInput \<Rightarrow> int \<Rightarrow> store \<Rightarrow> prisma_error + store" where
  "event_update eid d now s =
     (if \<exists>e \<in> set (events s). ev_id e = eid
        then Inr (s\<lparr>events := map (\<lambda>e. if ev_id e = eid then apply_update d now e else e)
                                  (events s)\<rparr>)
      else Inl RecordNotFound)"

subsection \<open>Queries\<close>

text \<open>\<^verbatim>\<open>findFirst\<close> and \<^verbatim>\<open>findUnique\<close> return the first row that satisfies the
  \<^verbatim>\<open>where\<close> clause, or \<^verbatim>\<open>null\<close>. The membership query
  \<^verbatim>\<open>organizationUser.findFirst({ where: { userId } })\<close> has no \<^verbatim>\<open>orderBy\<close>: the
  store answers it from the index of \<^verbatim>\<open>@@unique([userId, orgId])\<close>, so of the rows of
  one user the one with the least \<^verbatim>\<open>orgId\<close>, in the byte order of the strings, comes
  first, whatever the order of insertion. The other queries name a primary key or a unique
  column, or columns whose index keeps the rows of one key in insertion order.\<close>

definition organizationUser_findFirst :: "string \<Rightarrow> store \<Rightarrow> OrganizationUser option" where
  "organizationUser_findFirst uid s =
     (case sort_key ou_orgId (filter (\<lambda>m. ou_userId m = uid) (organizationUsers s)) of
        [] \<Rightarrow> None
      | m # _ \<Rightarrow> Some m)"

definition event_findFirst :: "string \<Rightarrow> string \<Rightarrow> store \<Rightarrow> Event option" where
  "event_findFirst eid oid s = find (\<lambda>e. ev_id e = eid \<and> ev_orgId e = oid) (events s)"

definition event_findUnique :: "string \<Rightarrow> string \<Rightarrow> store \<Rightarrow> Event option" where
  "event_findUnique eid oid s = find (\<lambda>e. ev_id e = eid \<and> ev_orgId e = oid) (events s)"

definition eventPhoto_findFirst :: "string \<Rightarrow> string \<Rightarrow> store \<Rightarrow> EventPhoto option" where
  "eventPhoto_findFirst pid eid s =
     find (\<lambda>p. ph_id p = pid \<and> ph_eventId p = eid) (eventPhotos s)"

definition eventPhoto_count :: "string \<Rightarrow> store \<Rightarrow> nat" where
  "eventPhoto_count eid s = length (filter (\<lambda>p. ph_eventId p = eid) (eventPhotos s))"

definition participant_count :: "string \<Rightarrow> store \<Rightarrow> nat" where
  "participant_count eid s = length (filter (\<lambda>p. p_eventId p = eid) (participants s))"

definition participant_findFirst :: "string \<Rightarrow> string \<Rightarrow> store \<Rightarrow> Participant option" where
  "participant_findFirst eid email s =
     find (\<lambda>p. p_eventId p = eid \<and> p_email p = Some email) (participants s)"

text \<open>\<^verbatim>\<open>findMany({ where: { eventId }, orderBy: { createdAt: 'asc' } })\<close>; rows with
  equal keys stay in table order.\<close>

definition participant_findMany :: "string \<Rightarrow> store \<Rightarrow> Participant list" where
  "participant_findMany eid s =
     sort_key p_createdAt (filter (\<lambda>p. p_eventId p = eid) (participants s))"

text \<open>The \<^verbatim>\<open>photos\<close> relation with \<^verbatim>\<open>orderBy: { uploadTime: 'desc' }\<close>.\<close>

definition eventPhoto_findMany :: "string \<Rightarrow> store \<Rightarrow> EventPhoto list" where
  "eventPhoto_findMany eid s =
     sort_key (\<lambda>p. - ph_uploadTime p) (filter (\<lambda>p. ph_eventId p = eid) (eventPhotos s))"

definition user_findUnique :: "string \<Rightarrow> store \<Rightarrow> User option" where
  "user_findUnique email s = find (\<lambda>u. u_email u = email) (users s)"

subsection \<open>The store as a transition system\<close>

datatype store_op =
    CreateUser User
  | CreateOrganization Organization
  | CreateOrganizationUser OrganizationUser
  | CreateEvent Event
  | CreateParticipant Participant
  | CreateEventPhoto EventPhoto
  | CreateDetectedFace DetectedFace
  | CreatePhotoParticipantMatch PhotoParticipantMatch
  | CreateFaceMatchingTask FaceMatchingTask
  | CreateConsentLog ConsentLog
  | UpdateEvent string EventUpdateInput int
  | DeleteUser string
  | DeleteOrganization string
  | DeleteEvent string string
  | DeleteParticipant string
  | DeleteEventPhoto string

fun store_step :: "store_op \<Rightarrow> store \<Rightarrow> prisma_error + store" where
  "store_step (CreateUser r) s = user_create r s"
| "store_step (CreateOrganization r) s = organization_create r s"
| "store_step (CreateOrganizationUser r) s = organizationUser_create r s"
| "store_step (CreateEvent r) s = event_create r s"
| "store_step (CreateParticipant r) s = participant_create r s"
| "store_step (CreateEventPhoto r) s = eventPhoto_create r s"
| "store_step (CreateDetectedFace r) s = detectedFace_create r s"
| "store_step (CreatePhotoParticipantMatch r) s = photoParticipantMatch_create r s"
| "store_step (CreateFaceMatchingTask r) s = faceMatchingTask_create r s"
| "store_step (CreateConsentLog r) s = consentLog_create r s"
| "store_step (UpdateEvent eid d now) s = event_update eid d now s"
| "store_step (DeleteUser uid) s = user_delete uid s"
| "store_step (DeleteOrganization oid) s = organization_delete oid s"
| "store_step (DeleteEvent eid oid) s = event_delete eid oid s"
| "store_step (DeleteParticipant pid) s = participant_delete pid s"
| "store_step (DeleteEventPhoto pid) s = eventPhoto_delete pid s"

text \<open>The (photo, participant) pairs of the match table, row by row.\<close>

definition match_pairs :: "store \<Rightarrow> (string \<times> string) list" where
  "match_pairs s = map (\<lambda>m. (m_photoId m, m_participantId m)) (photoParticipantMatches s)"

text \<open>The stores that a sequence of accepted statements builds from the empty one.\<close>

inductive reachable :: "store \<Rightarrow> bool" where
  init: "reachable empty_store"
| step: "reachable s \<Longrightarrow> store_step op s = Inr s' \<Longrightarrow> reachable s'"

section \<open>Requests, responses and the world outside the handlers\<close>

text \<open>A \<^verbatim>\<open>FormData\<close> entry is a string or a \<^verbatim>\<open>File\<close>; a form is the list of its
  entries in document order. Strings are byte strings.\<close>

record File =
  f_name :: string
  f_size :: nat

datatype formValue = FStr string | FFile File

type_synonym formData = "(string \<times> formValue) list"

text \<open>\<^verbatim>\<open>formData.get(key)\<close>: the first entry of that name, or \<^verbatim>\<open>null\<close>.\<close>

definition formData_get :: "formData \<Rightarrow> string \<Rightarrow> formValue option" where
  "formData_get fd k = map_of fd k"

text \<open>\<^verbatim>\<open>Object.fromEntries(formData)\<close>: one property for each name, holding its last
  entry. The properties are listed in the order in which the names first occur (the
  engine's reordering of integer-like names is not modelled).\<close>

fun fromEntries :: "formData \<Rightarrow> formData" where
  "fromEntries [] = []"
| "fromEntries ((k, v) # rest) =
     (k, case map_of (fromEntries rest) k of None \<Rightarrow> v | Some v' \<Rightarrow> v')
       # filter (\<lambda>kv. fst kv \<noteq> k) (fromEntries rest)"

text \<open>The user object that the session holds: a User row without its password hash.\<close>

record SessionUser =
  su_id :: string
  su_externalSystemId :: "string option"
  su_email :: string
  su_name :: "string option"
  su_profilePhotoUrl :: "string option"
  su_role :: Role
  su_createdAt :: int
  su_updatedAt :: int

record request =
  r_method :: string
  r_user :: "SessionUser option"
  r_form :: formData

text \<open>A validation issue of the schema library: the message that the schema itself
  supplies, or one of the library's own issues (input missing, input of the wrong type,
  string outside the enum).\<close>

datatype zod_issue = Custom string | Required | InvalidType | InvalidEnumValue string

datatype json =
    JNull
  | JBool bool
  | JNum int
  | JStr string
  | JFile
  | JIssue zod_issue
  | JArr "json list"
  | JObj "(string \<times> json) list"

text \<open>A response: \<^verbatim>\<open>json(data, { status })\<close>, \<^verbatim>\<open>new Response(text, { status })\<close>,
  \<^verbatim>\<open>redirect(url)\<close>, and the two responses of the login route that commit the session:
  status 401 with the session and its flashed error, and the redirect after a login with the
  user stored in the session.\<close>

datatype response =
    Json nat json
  | Text nat string
  | Redirect string
  | Unauthorized "SessionUser option" string
  | LoggedIn string SessionUser

fun status :: "response \<Rightarrow> nat" where
  "status (Json c _) = c"
| "status (Text c _) = c"
| "status (Redirect _) = 302"
| "status (Unauthorized _ _) = 401"
| "status (LoggedIn _ _) = 302"

datatype thrown =
    InvariantFailed string
  | Error string
  | PrismaError prisma_error

text \<open>How a loader or an action ends: it returns a response, throws a response, or throws
  an error that nothing catches.\<close>

datatype outcome = Returned response | ThrownResponse response | ThrownError thrown

text \<open>What a handler takes from outside the repository: the clock of the process
  (\<^verbatim>\<open>Date.now()\<close>, \<^verbatim>\<open>new Date()\<close>), the clock of the store (\<^verbatim>\<open>now()\<close>,
  \<^verbatim>\<open>@updatedAt\<close>), the next \<^verbatim>\<open>cuid()\<close>, \<^verbatim>\<open>Date.parse\<close> (\<open>None\<close> is
  \<^verbatim>\<open>NaN\<close>), the email test of the schema library, \<^verbatim>\<open>bcrypt.compare\<close> (which
  resolves to a boolean or rejects with a message), \<^verbatim>\<open>format\<close> of date-fns, and the
  message text of an error of the database client.\<close>

record env =
  Date_now :: int
  db_now :: int
  cuid :: string
  Date_parse :: "string \<Rightarrow> int option"
  zod_email :: "string \<Rightarrow> bool"
  bcrypt_compare :: "formValue \<Rightarrow> string \<Rightarrow> string + bool"
  date_format :: "int \<Rightarrow> string \<Rightarrow> string"
  prisma_message :: "prisma_error \<Rightarrow> string"

text \<open>The effects of a handler in program order: the statements the store accepted and the
  calls of the storage and compute stubs.\<close>

datatype effect =
    DbWrite store_op
  | StorageUpload string string
  | StorageDelete string
  | LambdaTrigger string string

record world =
  w_db :: store
  w_trace :: "effect list"

definition db_write :: "store_op \<Rightarrow> world \<Rightarrow> prisma_error + world" where
  "db_write op w =
     (case store_step op (w_db w) of
        Inl e \<Rightarrow> Inl e
      | Inr s' \<Rightarrow> Inr \<lparr>w_db = s', w_trace = w_trace w @ [DbWrite op]\<rparr>)"

subsection \<open>app/utils/auth.server.ts\<close>

definition requireUser ::
  "request \<Rightarrow> string option \<Rightarrow> Role list option \<Rightarrow> response + SessionUser" where
  "requireUser req redirectTo requiredRoles =
     (let target = (case redirectTo of None \<Rightarrow> ''/login'' | Some t \<Rightarrow> t) in
      case r_user req of
        None \<Rightarrow> Inl (Redirect target)
      | Some user \<Rightarrow>
          (case requiredRoles of
             None \<Rightarrow> Inr user
           | Some roles \<Rightarrow> if su_role user \<notin> set roles then Inl (Redirect target) else Inr user))"

subsection \<open>The storage and compute stubs (storage.server)\<close>

fun digits :: "nat \<Rightarrow> string" where
  "digits n =
     (if n < 10 then [char_of (48 + n)] else digits (n div 10) @ [char_of (48 + n mod 10)])"

definition decimal :: "int \<Rightarrow> string" where
  "decimal i = (if i < 0 then CHR ''-'' # digits (nat (- i)) else digits (nat i))"

text \<open>The white space of \<^verbatim>\<open>\s\<close> among the bytes: tab, line feed, vertical tab, form
  feed, carriage return and space.\<close>

definition is_space :: "char \<Rightarrow> bool" where
  "is_space c = (of_char c \<in> {9, 10, 11, 12, 13, 32 :: nat})"

text \<open>\<^verbatim>\<open>name.replace(/\s+/g, '_')\<close>: every maximal run of white space becomes one
  underscore.\<close>

function replace_spaces :: "string \<Rightarrow> string" where
  "replace_spaces [] = []"
| "replace_spaces (c # cs) =
     (if is_space c then CHR ''_'' # replace_spaces (dropWhile is_space cs)
      else c # replace_spaces cs)"
  by pat_completeness auto
termination
  by (relation "measure length") (auto simp: less_Suc_eq_le length_dropWhile_le)

definition uploadFileToStorage :: "env \<Rightarrow> File \<Rightarrow> string \<Rightarrow> world \<Rightarrow> string \<times> world" where
  "uploadFileToStorage env f pathPrefix w =
     (let uniqueFilename = decimal (Date_now env) @ ''-'' @ replace_spaces (f_name f) in
      (''/placeholder-storage/'' @ pathPrefix @ ''/'' @ uniqueFilename,
       w\<lparr>w_trace := w_trace w @ [StorageUpload (f_name f) pathPrefix]\<rparr>))"

definition deleteFileFromStorage :: "string \<Rightarrow> world \<Rightarrow> world" where
  "deleteFileFromStorage fileUrl w = w\<lparr>w_trace := w_trace w @ [StorageDelete fileUrl]\<rparr>"

definition triggerFaceMatchingLambda :: "string \<Rightarrow> string \<Rightarrow> world \<Rightarrow> world" where
  "triggerFaceMatchingLambda eventId taskId w =
     w\<lparr>w_trace := w_trace w @ [LambdaTrigger eventId taskId]\<rparr>"

subsection \<open>Validation schemas\<close>

text \<open>\<^verbatim>\<open>z.string()\<close> with a further check on the string; \<^verbatim>\<open>.optional()\<close> accepts a
  missing property and yields \<^verbatim>\<open>undefined\<close>, here \<open>None\<close>.\<close>

definition z_string ::
  "(string \<Rightarrow> zod_issue list) \<Rightarrow> formValue option \<Rightarrow> zod_issue list + string" where
  "z_string check v =
     (case v of
        None \<Rightarrow> Inl [Required]
      | Some (FFile _) \<Rightarrow> Inl [InvalidType]
      | Some (FStr x) \<Rightarrow> if check x = [] then Inr x else Inl (check x))"

definition z_optional ::
  "(formValue option \<Rightarrow> zod_issue list + 'a) \<Rightarrow> formValue option
     \<Rightarrow> zod_issue list + 'a option" where
  "z_optional p v =
     (case v of
        None \<Rightarrow> Inr None
      | Some _ \<Rightarrow> (case p v of Inl e \<Rightarrow> Inl e | Inr x \<Rightarrow> Inr (Some x)))"

definition z_refine ::
  "('a \<Rightarrow> bool) \<Rightarrow> string \<Rightarrow> zod_issue list + 'a \<Rightarrow> zod_issue list + 'a" where
  "z_refine ok msg r =
     (case r of Inl e \<Rightarrow> Inl e | Inr x \<Rightarrow> if ok x then Inr x else Inl [Custom msg])"

definition z_min1 :: "string \<Rightarrow> string \<Rightarrow> zod_issue list" where
  "z_min1 msg x = (if length x < 1 then [Custom msg] else [])"

fun EventStatus_name :: "EventStatus \<Rightarrow> string" where
  "EventStatus_name DRAFT = ''DRAFT''"
| "EventStatus_name UPCOMING = ''UPCOMING''"
| "EventStatus_name ACTIVE = ''ACTIVE''"
| "EventStatus_name COMPLETED = ''COMPLETED''"
| "EventStatus_name ARCHIVED = ''ARCHIVED''"

text \<open>\<^verbatim>\<open>z.nativeEnum(EventStatus)\<close>\<close>

definition z_EventStatus :: "formValue option \<Rightarrow> zod_issue list + EventStatus" where
  "z_EventStatus v =
     (case v of
        None \<Rightarrow> Inl [Required]
      | Some (FFile _) \<Rightarrow> Inl [InvalidType]
      | Some (FStr x) \<Rightarrow>
          (case find (\<lambda>st. EventStatus_name st = x) [DRAFT, UPCOMING, ACTIVE, COMPLETED, ARCHIVED] of
             None \<Rightarrow> Inl [InvalidEnumValue x]
           | Some st \<Rightarrow> Inr st))"

definition issues :: "zod_issue list + 'a \<Rightarrow> zod_issue list" where
  "issues r = (case r of Inl e \<Rightarrow> e | Inr _ \<Rightarrow> [])"

text \<open>\<^verbatim>\<open>error.flatten().fieldErrors\<close>: the fields that have issues, each with its list.\<close>

definition fieldErrors :: "(string \<times> zod_issue list) list \<Rightarrow> json" where
  "fieldErrors fs =
     JObj (map (\<lambda>kv. (fst kv, JArr (map JIssue (snd kv)))) (filter (\<lambda>kv. snd kv \<noteq> []) fs))"

record ParticipantData =
  pd_name :: string
  pd_email :: string

definition ParticipantSchema_safeParse :: "env \<Rightarrow> formData \<Rightarrow> json + ParticipantData" where
  "ParticipantSchema_safeParse env payload =
     (let name = z_string (z_min1 ''Name is required'') (map_of payload ''name'');
          email = z_string (\<lambda>x. if zod_email env x then [] else [Custom ''Invalid email format''])
                    (map_of payload ''email'')
      in case (name, email) of
           (Inr n, Inr e) \<Rightarrow> Inr \<lparr>pd_name = n, pd_email = e\<rparr>
         | _ \<Rightarrow> Inl (fieldErrors [(''name'', issues name), (''email'', issues email)]))"

record EventData =
  ed_name :: string
  ed_dateStart :: string
  ed_dateEnd :: "string option"
  ed_description :: "string option"
  ed_locationName :: "string option"
  ed_locationAddress :: "string option"
  ed_status :: EventStatus
  ed_isPublic :: bool

text \<open>The \<^verbatim>\<open>EventSchema\<close> of the edit route. \<^verbatim>\<open>.nullable()\<close> adds nothing here: no
  form entry is \<^verbatim>\<open>null\<close>. The refinement of \<^verbatim>\<open>dateEnd\<close> accepts a falsy value
  (\<^verbatim>\<open>undefined\<close> or the empty string); the preprocessing of \<^verbatim>\<open>isPublic\<close> turns any
  input into a boolean.\<close>

definition EventSchema_safeParse :: "env \<Rightarrow> formData \<Rightarrow> json + EventData" where
  "EventSchema_safeParse env payload =
     (let name = z_string (z_min1 ''Event name is required'') (map_of payload ''name'');
          dateStart = z_refine (\<lambda>date. Date_parse env date \<noteq> None) ''Invalid start date''
                        (z_string (\<lambda>_. []) (map_of payload ''dateStart''));
          dateEnd = z_refine (\<lambda>date. case date of None \<Rightarrow> True
                                       | Some x \<Rightarrow> x = [] \<or> Date_parse env x \<noteq> None)
                      ''Invalid end date''
                      (z_optional (z_string (\<lambda>_. [])) (map_of payload ''dateEnd''));
          description = z_optional (z_string (\<lambda>_. [])) (map_of payload ''description'');
          locationName = z_optional (z_string (\<lambda>_. [])) (map_of payload ''locationName'');
          locationAddress = z_optional (z_string (\<lambda>_. [])) (map_of payload ''locationAddress'');
          status = z_EventStatus (map_of payload ''status'');
          isPublic = (map_of payload ''isPublic'' = Some (FStr ''on''))
      in case (name, dateStart, dateEnd, description, locationName, locationAddress, status) of
           (Inr n, Inr ds, Inr de, Inr d, Inr ln, Inr la, Inr st) \<Rightarrow>
             Inr \<lparr>ed_name = n, ed_dateStart = ds, ed_dateEnd = de, ed_description = d,
                  ed_locationName = ln, ed_locationAddress = la, ed_status = st,
                  ed_isPublic = isPublic\<rparr>
         | _ \<Rightarrow>
             Inl (fieldErrors
               [(''name'', issues name), (''dateStart'', issues dateStart),
                (''dateEnd'', issues dateEnd), (''description'', issues description),
                (''locationName'', issues locationName),
                (''locationAddress'', issues locationAddress), (''status'', issues status)]))"

subsection \<open>Rows as JSON\<close>

definition json_of_entry :: "formValue \<Rightarrow> json" where
  "json_of_entry v = (case v of FStr x \<Rightarrow> JStr x | FFile _ \<Rightarrow> JFile)"

definition json_of_get :: "formValue option \<Rightarrow> json" where
  "json_of_get v = (case v of None \<Rightarrow> JNull | Some x \<Rightarrow> json_of_entry x)"

definition json_of_payload :: "formData \<Rightarrow> (string \<times> json) list" where
  "json_of_payload payload = map (\<lambda>kv. (fst kv, json_of_entry (snd kv))) payload"

definition nullable :: "('a \<Rightarrow> json) \<Rightarrow> 'a option \<Rightarrow> json" where
  "nullable f v = (case v of None \<Rightarrow> JNull | Some x \<Rightarrow> f x)"

text \<open>\<^verbatim>\<open>{ ...obj, key: value }\<close>: an existing property keeps its place.\<close>

definition set_prop :: "string \<Rightarrow> json \<Rightarrow> (string \<times> json) list \<Rightarrow> (string \<times> json) list" where
  "set_prop k v obj =
     (if k \<in> fst ` set obj then map (\<lambda>kv. if fst kv = k then (k, v) else kv) obj
      else obj @ [(k, v)])"

definition event_columns :: "Event \<Rightarrow> (string \<times> json) list" where
  "event_columns e =
     [(''id'', JStr (ev_id e)), (''orgId'', JStr (ev_orgId e)),
      (''categoryId'', nullable JStr (ev_categoryId e)), (''name'', JStr (ev_name e)),
      (''dateStart'', JNum (ev_dateStart e)), (''dateEnd'', nullable JNum (ev_dateEnd e)),
      (''status'', JStr (EventStatus_name (ev_status e))),
      (''description'', nullable JStr (ev_description e)),
      (''locationName'', nullable JStr (ev_locationName e)),
      (''locationAddress'', nullable JStr (ev_locationAddress e)),
      (''isPublic'', JBool (ev_isPublic e)), (''createdAt'', JNum (ev_createdAt e)),
      (''updatedAt'', JNum (ev_updatedAt e))]"

section \<open>Route handlers\<close>

text \<open>Every handler of an event route starts the same way: \<^verbatim>\<open>requireUser\<close>, the
  \<^verbatim>\<open>invariant\<close> on the route parameter, the first membership row of the user, and the
  event looked up by its id together with the organization of that row.\<close>

subsection \<open>The event page: loader and action\<close>

definition photo_json :: "env \<Rightarrow> EventPhoto \<Rightarrow> json" where
  "photo_json env photo =
     JObj [(''id'', JStr (ph_id photo)), (''imageUrl'', JStr (ph_imageUrl photo)),
           (''uploadTime'', JNum (ph_uploadTime photo)),
           (''uploaderUserId'', JStr (ph_uploaderUserId photo)),
           (''uploadTimeFormatted'', JStr (date_format env (ph_uploadTime photo) ''Pp''))]"

definition participant_json :: "Participant \<Rightarrow> (string \<times> json) list" where
  "participant_json p =
     [(''id'', JStr (p_id p)), (''name'', nullable JStr (p_name p)),
      (''email'', nullable JStr (p_email p)),
      (''registrationStatus'', nullable JStr (p_registrationStatus p))]"

definition eventId_loader :: "env \<Rightarrow> request \<Rightarrow> string \<Rightarrow> store \<Rightarrow> outcome" where
  "eventId_loader env req eventId s =
     (case requireUser req None None of
        Inl r \<Rightarrow> ThrownResponse r
      | Inr user \<Rightarrow>
          if eventId = [] then ThrownError (InvariantFailed ''Missing eventId param'')
          else
            (case organizationUser_findFirst (su_id user) s of
               None \<Rightarrow> ThrownResponse (Text 403 ''User not associated with an organization'')
             | Some orgUser \<Rightarrow>
                 (case event_findUnique eventId (ou_orgId orgUser) s of
                    None \<Rightarrow> ThrownResponse (Text 404 ''Event not found or access denied'')
                  | Some event \<Rightarrow>
                      Returned (Json 200 (JObj [(''event'', JObj
                        (event_columns event @
                         [(''photos'', JArr (map (photo_json env) (eventPhoto_findMany eventId s))),
                          (''participants'',
                             JArr (map (\<lambda>p. JObj (participant_json p))
                                     (participant_findMany eventId s))),
                          (''dateStartFormatted'',
                             JStr (date_format env (ev_dateStart event) ''PPP p'')),
                          (''dateEndFormatted'',
                             nullable (\<lambda>d. JStr (date_format env d ''PPP p''))
                               (ev_dateEnd event))]))])))))"

text \<open>The three intents of the action. Inside its \<^verbatim>\<open>try\<close> block whatever the store
  throws ends in the status 500 of the \<^verbatim>\<open>catch\<close> block. In \<open>deletePhoto\<close> a
  \<^verbatim>\<open>File\<close> sent as \<^verbatim>\<open>photoId\<close> is truthy, so it passes the guard, and the
  query then throws on an argument that is not a string.\<close>

definition uploadPhoto ::
  "env \<Rightarrow> SessionUser \<Rightarrow> string \<Rightarrow> formData \<Rightarrow> world \<Rightarrow> outcome \<times> world" where
  "uploadPhoto env user eventId fd w =
     (let intent = (''intent'', JStr ''uploadPhoto'');
          empty = (Returned (Json 400 (JObj [intent,
                     (''error'', JStr ''No file selected or file is empty.''),
                     (''photoUploadSuccess'', JBool False)])), w)
      in case formData_get fd ''photoFile'' of
           Some (FFile photoFile) \<Rightarrow>
             if f_size photoFile = 0 then empty
             else
               (let (imageUrl, w1) =
                      uploadFileToStorage env photoFile (''events/'' @ eventId @ ''/photos'') w
                in case db_write (CreateEventPhoto
                          \<lparr>ph_id = cuid env, ph_eventId = eventId, ph_uploaderUserId = su_id user,
                           ph_imageUrl = imageUrl, ph_thumbnailUrl = None,
                           ph_uploadTime = Date_now env, ph_reviewStatus = PENDING,
                           ph_isPublic = False, ph_metadata = None, ph_createdAt = db_now env,
                           ph_updatedAt = db_now env\<rparr>) w1 of
                     Inl error \<Rightarrow>
                       (Returned (Json 500 (JObj [intent,
                          (''error'', JStr ''Failed to upload photo. Please try again.''),
                          (''photoUploadSuccess'', JBool False)])), w1)
                   | Inr w2 \<Rightarrow>
                       (Returned (Json 200 (JObj [intent, (''photoUploadSuccess'', JBool True),
                          (''message'', JStr (f_name photoFile @ '' uploaded successfully.''))])),
                        w2))
         | _ \<Rightarrow> empty)"

definition deletePhoto :: "string \<Rightarrow> formData \<Rightarrow> world \<Rightarrow> outcome \<times> world" where
  "deletePhoto eventId fd w =
     (let intent = (''intent'', JStr ''deletePhoto'');
          failed = (Returned (Json 500 (JObj [intent,
                      (''error'', JStr ''Failed to delete photo. Please try again.''),
                      (''photoDeleteSuccess'', JBool False)])), w)
      in case formData_get fd ''photoId'' of
           None \<Rightarrow>
             (Returned (Json 400 (JObj [intent, (''error'', JStr ''Missing photo ID.''),
                (''photoDeleteSuccess'', JBool False)])), w)
         | Some (FFile _) \<Rightarrow> failed
         | Some (FStr photoId) \<Rightarrow>
             if photoId = [] then
               (Returned (Json 400 (JObj [intent, (''error'', JStr ''Missing photo ID.''),
                  (''photoDeleteSuccess'', JBool False)])), w)
             else
               (case eventPhoto_findFirst photoId eventId (w_db w) of
                  None \<Rightarrow>
                    (Returned (Json 404 (JObj [intent,
                       (''error'', JStr ''Photo not found or access denied.''),
                       (''photoDeleteSuccess'', JBool False)])), w)
                | Some photo \<Rightarrow>
                    (case db_write (DeleteEventPhoto photoId) w of
                       Inl error \<Rightarrow> failed
                     | Inr w1 \<Rightarrow>
                         (Returned (Json 200 (JObj [intent, (''photoDeleteSuccess'', JBool True),
                            (''deletedPhotoId'', JStr photoId),
                            (''message'', JStr ''Photo deleted successfully.'')])),
                          deleteFileFromStorage (ph_imageUrl photo) w1))))"

definition initiateFaceMatching :: "env \<Rightarrow> string \<Rightarrow> world \<Rightarrow> outcome \<times> world" where
  "initiateFaceMatching env eventId w =
     (let intent = (''intent'', JStr ''initiateFaceMatching'');
          photoCount = eventPhoto_count eventId (w_db w);
          participantCount = participant_count eventId (w_db w)
      in if photoCount = 0 then
           (Returned (Json 400 (JObj [intent,
              (''error'', JStr ''Cannot initiate matching without uploaded photos.''),
              (''faceMatchingInitiated'', JBool False)])), w)
         else if participantCount = 0 then
           (Returned (Json 400 (JObj [intent,
              (''error'', JStr ''Cannot initiate matching without added participants.''),
              (''faceMatchingInitiated'', JBool False)])), w)
         else
           (let task = \<lparr>t_id = cuid env, t_eventId = eventId, t_status = TASK_PENDING,
                        t_startTime = None, t_completionTime = None, t_awsRequestId = None,
                        t_errorDetails = None, t_createdAt = db_now env,
                        t_updatedAt = db_now env\<rparr>
            in case db_write (CreateFaceMatchingTask task) w of
                 Inl error \<Rightarrow>
                   (Returned (Json 500 (JObj [intent,
                      (''error'', JStr ''Failed to initiate face matching. Please try again.''),
                      (''faceMatchingInitiated'', JBool False)])), w)
               | Inr w1 \<Rightarrow>
                   (Returned (Json 200 (JObj [intent, (''faceMatchingInitiated'', JBool True),
                      (''taskId'', JStr (t_id task)),
                      (''message'', JStr ''Face matching process initiated successfully.'')])),
                    triggerFaceMatchingLambda eventId (t_id task) w1)))"

definition eventId_action :: "env \<Rightarrow> request \<Rightarrow> string \<Rightarrow> world \<Rightarrow> outcome \<times> world" where
  "eventId_action env req eventId w =
     (case requireUser req None None of
        Inl r \<Rightarrow> (ThrownResponse r, w)
      | Inr user \<Rightarrow>
          if eventId = [] then (ThrownError (InvariantFailed ''Missing eventId param''), w)
          else
            (case organizationUser_findFirst (su_id user) (w_db w) of
               None \<Rightarrow>
                 (Returned (Json 403
                    (JObj [(''error'', JStr ''User not associated with an organization'')])), w)
             | Some orgUser \<Rightarrow>
                 (case event_findFirst eventId (ou_orgId orgUser) (w_db w) of
                    None \<Rightarrow>
                      (Returned (Json 404
                         (JObj [(''error'', JStr ''Event not found or access denied'')])), w)
                  | Some event \<Rightarrow>
                      (let intent = formData_get (r_form req) ''intent'' in
                       if intent = Some (FStr ''uploadPhoto'')
                         then uploadPhoto env user eventId (r_form req) w
                       else if intent = Some (FStr ''deletePhoto'')
                         then deletePhoto eventId (r_form req) w
                       else if intent = Some (FStr ''initiateFaceMatching'')
                         then initiateFaceMatching env eventId w
                       else
                         (Returned (Json 400 (JObj [(''intent'', json_of_get intent),
                            (''error'', JStr ''Invalid intent''), (''success'', JBool False)])),
                          w)))))"

subsection \<open>The delete route\<close>

definition eventId_delete_action ::
  "env \<Rightarrow> request \<Rightarrow> string \<Rightarrow> world \<Rightarrow> outcome \<times> world" where
  "eventId_delete_action env req eventId w =
     (case requireUser req None None of
        Inl r \<Rightarrow> (ThrownResponse r, w)
      | Inr user \<Rightarrow>
          if eventId = [] then (ThrownError (InvariantFailed ''Missing eventId param''), w)
          else if r_method req \<noteq> ''POST'' then
            (Returned (Json 405 (JObj [(''message'', JStr ''Method not allowed'')])), w)
          else
            (case organizationUser_findFirst (su_id user) (w_db w) of
               None \<Rightarrow>
                 (Returned (Json 403
                    (JObj [(''message'', JStr ''User not associated with an organization'')])), w)
             | Some orgUser \<Rightarrow>
                 (case event_findFirst eventId (ou_orgId orgUser) (w_db w) of
                    None \<Rightarrow>
                      (Returned (Json 404
                         (JObj [(''message'', JStr ''Event not found or access denied'')])), w)
                  | Some event \<Rightarrow>
                      (case db_write (DeleteEvent eventId (ou_orgId orgUser)) w of
                         Inl error \<Rightarrow>
                           (Returned (Json 500 (JObj [(''message'',
                              JStr ''Failed to delete event. Please try again.'')])), w)
                       | Inr w1 \<Rightarrow> (Returned (Redirect ''/org/events''), w1)))))"

definition eventId_delete_loader :: outcome where
  "eventId_delete_loader = ThrownResponse (Text 404 ''Not Found'')"

subsection \<open>The edit route\<close>

definition eventId_edit_loader :: "env \<Rightarrow> request \<Rightarrow> string \<Rightarrow> store \<Rightarrow> outcome" where
  "eventId_edit_loader env req eventId s =
     (case requireUser req None None of
        Inl r \<Rightarrow> ThrownResponse r
      | Inr user \<Rightarrow>
          if eventId = [] then ThrownError (InvariantFailed ''Missing eventId param'')
          else
            (case organizationUser_findFirst (su_id user) s of
               None \<Rightarrow> ThrownResponse (Text 403 ''User not associated with an organization'')
             | Some orgUser \<Rightarrow>
                 (case event_findUnique eventId (ou_orgId orgUser) s of
                    None \<Rightarrow> ThrownResponse (Text 404 ''Event not found or access denied'')
                  | Some event \<Rightarrow>
                      Returned (Json 200 (JObj
                        [(''event'', JObj
                           (set_prop ''locationAddress''
                              (JStr (case ev_locationAddress event of None \<Rightarrow> [] | Some x \<Rightarrow> x))
                           (set_prop ''locationName''
                              (JStr (case ev_locationName event of None \<Rightarrow> [] | Some x \<Rightarrow> x))
                           (set_prop ''description''
                              (JStr (case ev_description event of None \<Rightarrow> [] | Some x \<Rightarrow> x))
                           (set_prop ''dateEnd''
                              (nullable (\<lambda>d. JStr (date_format env d ''yyyy-MM-dd''))
                                 (ev_dateEnd event))
                           (set_prop ''dateStart''
                              (JStr (date_format env (ev_dateStart event) ''yyyy-MM-dd''))
                              (event_columns event))))))),
                         (''eventStatuses'',
                            JArr (map (\<lambda>st. JStr (EventStatus_name st))
                                    [DRAFT, UPCOMING, ACTIVE, COMPLETED, ARCHIVED]))])))))"

text \<open>The \<^verbatim>\<open>data\<close> object that the action hands to \<^verbatim>\<open>prisma.event.update\<close>.
  \<^verbatim>\<open>new Date(text)\<close> reads the text as \<^verbatim>\<open>Date.parse\<close> does, and the client refuses an
  invalid date. \<^verbatim>\<open>dateEnd\<close> is \<^verbatim>\<open>null\<close> when the parsed value is falsy; the three
  text properties are passed on as parsed, \<^verbatim>\<open>undefined\<close> included.\<close>

definition update_data :: "env \<Rightarrow> EventData \<Rightarrow> prisma_error + EventUpdateInput" where
  "update_data env d =
     (case Date_parse env (ed_dateStart d) of
        None \<Rightarrow> Inl ValidationError
      | Some dateStart \<Rightarrow>
          (case (case ed_dateEnd d of
                   None \<Rightarrow> Inr None
                 | Some x \<Rightarrow>
                     if x = [] then Inr None
                     else (case Date_parse env x of
                             None \<Rightarrow> Inl ValidationError
                           | Some t \<Rightarrow> Inr (Some t))) of
             Inl e \<Rightarrow> Inl e
           | Inr dateEnd \<Rightarrow>
               Inr \<lparr>upd_name = Some (ed_name d), upd_dateStart = Some dateStart,
                    upd_dateEnd = Some dateEnd,
                    upd_description = map_option Some (ed_description d),
                    upd_locationName = map_option Some (ed_locationName d),
                    upd_locationAddress = map_option Some (ed_locationAddress d),
                    upd_status = Some (ed_status d), upd_isPublic = Some (ed_isPublic d)\<rparr>))"

definition eventId_edit_action ::
  "env \<Rightarrow> request \<Rightarrow> string \<Rightarrow> world \<Rightarrow> outcome \<times> world" where
  "eventId_edit_action env req eventId w =
     (case requireUser req None None of
        Inl r \<Rightarrow> (ThrownResponse r, w)
      | Inr user \<Rightarrow>
          if eventId = [] then (ThrownError (InvariantFailed ''Missing eventId param''), w)
          else
            (let formPayload = fromEntries (r_form req);
                 returnValues = set_prop ''isPublic''
                   (JBool (map_of formPayload ''isPublic'' = Some (FStr ''on'')))
                   (json_of_payload formPayload);
                 failed = (Returned (Json 500 (JObj
                   [(''errors'', JObj [(''form'',
                       JStr ''Failed to update event. Please try again.'')]),
                    (''values'', JObj returnValues)])), w)
             in case organizationUser_findFirst (su_id user) (w_db w) of
                  None \<Rightarrow>
                    (Returned (Json 403 (JObj [(''errors'', JObj [(''form'',
                       JStr ''User not associated with an organization'')])])), w)
                | Some orgUser \<Rightarrow>
                    (case EventSchema_safeParse env formPayload of
                       Inl errors \<Rightarrow>
                         (Returned (Json 400 (JObj [(''errors'', errors),
                            (''values'', JObj (json_of_payload formPayload))])), w)
                     | Inr result \<Rightarrow>
                         (case event_findFirst eventId (ou_orgId orgUser) (w_db w) of
                            None \<Rightarrow>
                              (ThrownResponse (Text 404 ''Event not found or access denied''), w)
                          | Some existingEvent \<Rightarrow>
                              (case update_data env result of
                                 Inl error \<Rightarrow> failed
                               | Inr d \<Rightarrow>
                                   (case db_write (UpdateEvent eventId d (db_now env)) w of
                                      Inl error \<Rightarrow> failed
                                    | Inr w1 \<Rightarrow>
                                        (Returned (Redirect (''/org/events/'' @ eventId)),
                                         w1)))))))"

subsection \<open>The participant routes\<close>

definition participants_loader :: "env \<Rightarrow> request \<Rightarrow> string \<Rightarrow> store \<Rightarrow> outcome" where
  "participants_loader env req eventId s =
     (case requireUser req None None of
        Inl r \<Rightarrow> ThrownResponse r
      | Inr user \<Rightarrow>
          if eventId = [] then ThrownError (InvariantFailed ''Missing eventId param'')
          else
            (case organizationUser_findFirst (su_id user) s of
               None \<Rightarrow> ThrownResponse (Text 403 ''User not associated with an organization'')
             | Some orgUser \<Rightarrow>
                 (case event_findFirst eventId (ou_orgId orgUser) s of
                    None \<Rightarrow> ThrownResponse (Text 404 ''Event not found or access denied'')
                  | Some event \<Rightarrow>
                      Returned (Json 200 (JObj [(''participants'',
                        JArr (map (\<lambda>p. JObj (participant_json p @
                                      [(''consentStatus'', JBool (p_consentStatus p))]))
                                (participant_findMany eventId s)))])))))"

definition participants_new_action ::
  "env \<Rightarrow> request \<Rightarrow> string \<Rightarrow> world \<Rightarrow> outcome \<times> world" where
  "participants_new_action env req eventId w =
     (case requireUser req None None of
        Inl r \<Rightarrow> (ThrownResponse r, w)
      | Inr user \<Rightarrow>
          if eventId = [] then (ThrownError (InvariantFailed ''Missing eventId param''), w)
          else
            (case organizationUser_findFirst (su_id user) (w_db w) of
               None \<Rightarrow>
                 (Returned (Json 403 (JObj [(''errors'', JObj [(''form'',
                    JStr ''User not associated with an organization'')])])), w)
             | Some orgUser \<Rightarrow>
                 (case event_findFirst eventId (ou_orgId orgUser) (w_db w) of
                    None \<Rightarrow>
                      (Returned (Json 404 (JObj [(''errors'', JObj [(''form'',
                         JStr ''Event not found or access denied'')])])), w)
                  | Some event \<Rightarrow>
                      (case ParticipantSchema_safeParse env (fromEntries (r_form req)) of
                         Inl errors \<Rightarrow> (Returned (Json 400 (JObj [(''errors'', errors)])), w)
                       | Inr submission \<Rightarrow>
                           (case participant_findFirst eventId (pd_email submission) (w_db w) of
                              Some existingParticipant \<Rightarrow>
                                (Returned (Json 400 (JObj [(''errors'', JObj [(''email'',
                                   JStr (''A participant with this email already exists '' @
                                         ''for this event.''))])])), w)
                            | None \<Rightarrow>
                                (case db_write (CreateParticipant
                                        \<lparr>p_id = cuid env, p_eventId = eventId, p_userId = None,
                                         p_name = Some (pd_name submission),
                                         p_email = Some (pd_email submission),
                                         p_registrationStatus = Some ''Invited'',
                                         p_consentStatus = False, p_referencePhotoUrl = None,
                                         p_createdAt = db_now env,
                                         p_updatedAt = db_now env\<rparr>) w of
                                   Inl error \<Rightarrow>
                                     (Returned (Json 500 (JObj [(''errors'', JObj [(''form'',
                                        JStr (''Failed to add participant. '' @
                                              ''Please try again later.''))])])), w)
                                 | Inr w1 \<Rightarrow>
                                     (Returned (Redirect (''/org/events/'' @ eventId @
                                                          ''/participants'')), w1)))))))"

subsection \<open>Login\<close>

text \<open>The callback given to \<^verbatim>\<open>FormStrategy\<close>. An entry is falsy when it is missing or
  the empty string. A \<^verbatim>\<open>File\<close> passed as the email makes the query throw.\<close>

definition userWithoutPassword :: "User \<Rightarrow> SessionUser" where
  "userWithoutPassword u =
     \<lparr>su_id = u_id u, su_externalSystemId = u_externalSystemId u, su_email = u_email u,
      su_name = u_name u, su_profilePhotoUrl = u_profilePhotoUrl u, su_role = u_role u,
      su_createdAt = u_createdAt u, su_updatedAt = u_updatedAt u\<rparr>"

definition falsy :: "formValue option \<Rightarrow> bool" where
  "falsy v = (v = None \<or> v = Some (FStr []))"

definition verify :: "env \<Rightarrow> formData \<Rightarrow> store \<Rightarrow> thrown + SessionUser" where
  "verify env form s =
     (let email = formData_get form ''email'';
          password = formData_get form ''password''
      in if falsy email \<or> falsy password then Inl (Error ''Email and password are required.'')
         else
           (case (email, password) of
              (Some (FStr address), Some pw) \<Rightarrow>
                (case user_findUnique address s of
                   None \<Rightarrow> Inl (Error ''Invalid login credentials.'')
                 | Some user \<Rightarrow>
                     (case bcrypt_compare env pw (u_passwordHash user) of
                        Inl msg \<Rightarrow> Inl (Error msg)
                      | Inr isPasswordValid \<Rightarrow>
                          if \<not> isPasswordValid then Inl (Error ''Invalid login credentials.'')
                          else Inr (userWithoutPassword user)))
            | _ \<Rightarrow> Inl (PrismaError ValidationError)))"

text \<open>\<^verbatim>\<open>error.message\<close> of what the callback threw.\<close>

definition message :: "env \<Rightarrow> thrown \<Rightarrow> string" where
  "message env e =
     (case e of
        InvariantFailed m \<Rightarrow> ''Invariant failed: '' @ m
      | Error m \<Rightarrow> m
      | PrismaError pe \<Rightarrow> prisma_message env pe)"

text \<open>The action of the login route: \<^verbatim>\<open>authenticator.authenticate\<close> with
  \<^verbatim>\<open>successRedirect\<close> and \<^verbatim>\<open>throwOnError\<close> runs the callback, throws the redirect
  with the user in the session when it succeeds, and throws an error with the callback's
  message otherwise; the action flashes that message into the session and answers 401.\<close>

definition login_action :: "env \<Rightarrow> request \<Rightarrow> store \<Rightarrow> outcome" where
  "login_action env req s =
     (case verify env (r_form req) s of
        Inr user \<Rightarrow> Returned (LoggedIn ''/org'' user)
      | Inl error \<Rightarrow> Returned (Unauthorized (r_user req) (message env error)))"

subsection \<open>The handlers that take an event id\<close>

text \<open>The seven exported handlers whose route carries \<^verbatim>\<open>$eventId\<close> and that look the
  event up. Photo upload, photo deletion and the start of face matching are the three
  intents of the action of the event page.\<close>

datatype handler =
    EventLoader
  | EventAction
  | EventEditLoader
  | EventEditAction
  | EventDeleteAction
  | ParticipantsLoader
  | ParticipantsNewAction

fun run :: "env \<Rightarrow> handler \<Rightarrow> request \<Rightarrow> string \<Rightarrow> world \<Rightarrow> outcome \<times> world" where
  "run env EventLoader req eventId w = (eventId_loader env req eventId (w_db w), w)"
| "run env EventAction req eventId w = eventId_action env req eventId w"
| "run env EventEditLoader req eventId w = (eventId_edit_loader env req eventId (w_db w), w)"
| "run env EventEditAction req eventId w = eventId_edit_action env req eventId w"
| "run env EventDeleteAction req eventId w = eventId_delete_action env req eventId w"
| "run env ParticipantsLoader req eventId w = (participants_loader env req eventId (w_db w), w)"
| "run env ParticipantsNewAction req eventId w = participants_new_action env req eventId w"

fun http_status :: "outcome \<Rightarrow> nat option" where
  "http_status (Returned r) = Some (status r)"
| "http_status (ThrownResponse r) = Some (status r)"
| "http_status (ThrownError _) = None"

text \<open>Whether a handler gets as far as the event lookup once the user has a membership:
  the edit action validates the form first, the delete action checks the method first.\<close>

fun reaches_lookup :: "env \<Rightarrow> handler \<Rightarrow> request \<Rightarrow> bool" where
  "reaches_lookup env EventEditAction req =
     (case EventSchema_safeParse env (fromEntries (r_form req)) of
        Inl _ \<Rightarrow> False | Inr _ \<Rightarrow> True)"
| "reaches_lookup env EventDeleteAction req = (r_method req = ''POST'')"
| "reaches_lookup env _ req = True"

section \<open>A sample deployment\<close>

text \<open>Two organizations with one member each; the first one owns an event with a
  participant, a photo with a detected face, a match, a matching task and a consent log
  entry. The sample environment stands in for the clock, the id generator and the
  libraries; its \<open>bcrypt_compare\<close> rejects an argument that is not a string, with the
  message of bcryptjs.\<close>

fun run_ops :: "store_op list \<Rightarrow> store \<Rightarrow> prisma_error + store" where
  "run_ops [] s = Inr s"
| "run_ops (op # ops) s = (case store_step op s of Inl e \<Rightarrow> Inl e | Inr s' \<Rightarrow> run_ops ops s')"

definition alice :: User where
  "alice = \<lparr>u_id = ''u1'', u_externalSystemId = None, u_email = ''alice@a.example'',
     u_passwordHash = ''hash:wonderland'', u_name = Some ''Alice'', u_profilePhotoUrl = None,
     u_role = ORGANIZATION_ADMIN, u_createdAt = 1, u_updatedAt = 1\<rparr>"

definition bob :: User where
  "bob = \<lparr>u_id = ''u2'', u_externalSystemId = None, u_email = ''bob@b.example'',
     u_passwordHash = ''hash:builder'', u_name = Some ''Bob'', u_profilePhotoUrl = None,
     u_role = ORGANIZATION_ADMIN, u_createdAt = 2, u_updatedAt = 2\<rparr>"

definition gala :: Event where
  "gala = \<lparr>ev_id = ''e1'', ev_orgId = ''o1'', ev_categoryId = None, ev_name = ''Spring Gala'',
     ev_dateStart = 1746057600000, ev_dateEnd = Some 1746144000000, ev_status = DRAFT,
     ev_description = Some ''Annual dinner'', ev_locationName = None,
     ev_locationAddress = None, ev_isPublic = False, ev_createdAt = 5, ev_updatedAt = 5\<rparr>"

definition guest :: Participant where
  "guest = \<lparr>p_id = ''p1'', p_eventId = ''e1'', p_userId = None, p_name = Some ''Ann'',
     p_email = Some ''a@example.com'', p_registrationStatus = Some ''Invited'',
     p_consentStatus = False, p_referencePhotoUrl = None, p_createdAt = 6, p_updatedAt = 6\<rparr>"

definition shot :: EventPhoto where
  "shot = \<lparr>ph_id = ''ph1'', ph_eventId = ''e1'', ph_uploaderUserId = ''u1'',
     ph_imageUrl = ''/placeholder-storage/events/e1/photos/7-a.png'', ph_thumbnailUrl = None,
     ph_uploadTime = 7, ph_reviewStatus = PENDING, ph_isPublic = False, ph_metadata = None,
     ph_createdAt = 7, ph_updatedAt = 7\<rparr>"

definition face :: DetectedFace where
  "face = \<lparr>df_id = ''f1'', df_photoId = ''ph1'', df_boundingBox = ''[0,0,1,1]'',
     df_faceDescriptor = None, df_createdAt = 8\<rparr>"

definition match1 :: PhotoParticipantMatch where
  "match1 = \<lparr>m_id = ''m1'', m_photoId = ''ph1'', m_participantId = ''p1'',
     m_confidenceScore = None, m_matchTime = 9, m_createdAt = 9\<rparr>"

definition task1 :: FaceMatchingTask where
  "task1 = \<lparr>t_id = ''t1'', t_eventId = ''e1'', t_status = TASK_PENDING, t_startTime = None,
     t_completionTime = None, t_awsRequestId = None, t_errorDetails = None, t_createdAt = 10,
     t_updatedAt = 10\<rparr>"

definition consent1 :: ConsentLog where
  "consent1 = \<lparr>cl_id = ''c1'', cl_userId = ''u1'', cl_eventId = Some ''e1'',
     cl_participantId = Some ''p1'', cl_type = FACIAL_RECOGNITION, cl_status = GRANTED,
     cl_timestamp = 11, cl_details = None\<rparr>"

definition sample_ops :: "store_op list" where
  "sample_ops =
     [CreateUser alice, CreateUser bob,
      CreateOrganization \<lparr>o_id = ''o1'', o_name = ''Org A''\<rparr>,
      CreateOrganization \<lparr>o_id = ''o2'', o_name = ''Org B''\<rparr>,
      CreateOrganizationUser \<lparr>ou_id = ''ou1'', ou_userId = ''u1'', ou_orgId = ''o1'',
        ou_createdAt = 3, ou_updatedAt = 3\<rparr>,
      CreateOrganizationUser \<lparr>ou_id = ''ou2'', ou_userId = ''u2'', ou_orgId = ''o2'',
        ou_createdAt = 4, ou_updatedAt = 4\<rparr>,
      CreateEvent gala, CreateParticipant guest, CreateEventPhoto shot,
      CreateDetectedFace face, CreatePhotoParticipantMatch match1,
      CreateFaceMatchingTask task1, CreateConsentLog consent1]"

definition sample_store :: store where
  "sample_store =
     \<lparr>users = [alice, bob],
      organizations = [\<lparr>o_id = ''o1'', o_name = ''Org A''\<rparr>, \<lparr>o_id = ''o2'', o_name = ''Org B''\<rparr>],
      organizationUsers =
        [\<lparr>ou_id = ''ou1'', ou_userId = ''u1'', ou_orgId = ''o1'', ou_createdAt = 3,
          ou_updatedAt = 3\<rparr>,
         \<lparr>ou_id = ''ou2'', ou_userId = ''u2'', ou_orgId = ''o2'', ou_createdAt = 4,
          ou_updatedAt = 4\<rparr>],
      events = [gala], participants = [guest], eventPhotos = [shot], detectedFaces = [face],
      photoParticipantMatches = [match1], faceMatchingTasks = [task1],
      consentLogs = [consent1]\<rparr>"

definition sample_world :: world where
  "sample_world = \<lparr>w_db = sample_store, w_trace = []\<rparr>"

definition sample_env :: env where
  "sample_env =
     \<lparr>Date_now = 1000, db_now = 1001, cuid = ''new1'',
      Date_parse = (\<lambda>x. if x = ''2025-05-01'' then Some 1746057600000
                        else if x = ''2025-05-02'' then Some 1746144000000 else None),
      zod_email = (\<lambda>x. CHR ''@'' \<in> set x),
      bcrypt_compare = (\<lambda>pw h. case pw of FStr x \<Rightarrow> Inr (h = ''hash:'' @ x)
                                  | FFile _ \<Rightarrow> Inl ''Illegal arguments: object, string''),
      date_format = (\<lambda>t f. f),
      prisma_message = (\<lambda>e. ''Invalid invocation'')\<rparr>"

text \<open>A request of the given user with the given method and form.\<close>

definition request_of :: "User \<Rightarrow> string \<Rightarrow> formData \<Rightarrow> request" where
  "request_of u method form =
     \<lparr>r_method = method, r_user = Some (userWithoutPassword u), r_form = form\<rparr>"

section \<open>Verification\<close>

subsection \<open>The sample deployment\<close>

lemmas sample_defs = sample_store_def sample_world_def sample_env_def request_of_def
  userWithoutPassword_def alice_def bob_def gala_def guest_def shot_def face_def match1_def
  task1_def consent1_def

lemmas create_defs = user_create_def organization_create_def organizationUser_create_def
  event_create_def participant_create_def eventPhoto_create_def detectedFace_create_def
  photoParticipantMatch_create_def faceMatchingTask_create_def consentLog_create_def
  dangling_def

lemma sample_store_built: "run_ops sample_ops empty_store = Inr sample_store"
  by (simp add: sample_ops_def empty_store_def sample_defs create_defs)

lemma reachable_run_ops: "reachable s \<Longrightarrow> run_ops ops s = Inr s' \<Longrightarrow> reachable s'"
proof (induction ops arbitrary: s)
  case Nil
  then show ?case by simp
next
  case (Cons op ops)
  then show ?case by (auto split: sum.splits intro: reachable.step)
qed

lemma reachable_sample_store: "reachable sample_store"
  using reachable_run_ops [OF reachable.init sample_store_built] .


text \<open>The membership lookup follows the index, not the order of insertion: a user who
  joined \<^verbatim>\<open>o2\<close> first and \<^verbatim>\<open>o1\<close> afterwards resolves to \<^verbatim>\<open>o1\<close>.\<close>

lemma membership_lookup_follows_index:
  "map_option ou_orgId
     (organizationUser_findFirst ''u2''
        (sample_store\<lparr>organizationUsers := organizationUsers sample_store @
           [\<lparr>ou_id = ''ou3'', ou_userId = ''u2'', ou_orgId = ''o1'', ou_createdAt = 12,
             ou_updatedAt = 12\<rparr>]\<rparr>)) = Some ''o1''"
  by code_simp

subsection \<open>Uniqueness of matches\<close>

lemma matches_delete_photos:
  "photoParticipantMatches (delete_photos P s) =
     filter (\<lambda>m. m_photoId m \<notin> set (map ph_id (filter P (eventPhotos s)))) (photoParticipantMatches s)"
  by (simp add: delete_photos_def Let_def)

lemma matches_delete_participants:
  "photoParticipantMatches (delete_participants P s) =
     filter (\<lambda>m. m_participantId m \<notin> set (map p_id (filter P (participants s)))) (photoParticipantMatches s)"
  by (simp add: delete_participants_def Let_def)

lemma distinct_pairs_delete_photos:
  "distinct (match_pairs s) \<Longrightarrow> distinct (match_pairs (delete_photos P s))"
  unfolding match_pairs_def matches_delete_photos by (rule distinct_map_filter)

lemma distinct_pairs_delete_participants:
  "distinct (match_pairs s) \<Longrightarrow> distinct (match_pairs (delete_participants P s))"
  unfolding match_pairs_def matches_delete_participants by (rule distinct_map_filter)

lemma distinct_pairs_delete_events:
  "distinct (match_pairs s) \<Longrightarrow> distinct (match_pairs (delete_events P s))"
proof -
  assume d: "distinct (match_pairs s)"
  let ?gone = "map ev_id (filter P (events s))"
  let ?s1 = "delete_participants (\<lambda>p. p_eventId p \<in> set ?gone) s"
  let ?s2 = "delete_photos (\<lambda>p. ph_eventId p \<in> set ?gone) ?s1"
  have "distinct (match_pairs ?s2)"
    by (intro distinct_pairs_delete_photos distinct_pairs_delete_participants d)
  moreover have "match_pairs (delete_events P s) = match_pairs ?s2"
    by (simp add: delete_events_def Let_def match_pairs_def)
  ultimately show ?thesis by simp
qed

lemma store_step_distinct_pairs:
  assumes "distinct (match_pairs s)" and "store_step op s = Inr s'"
  shows "distinct (match_pairs s')"
proof (cases op)
  case (CreatePhotoParticipantMatch r)
  with assms(2) have fresh: "\<not> (\<exists>m \<in> set (photoParticipantMatches s).
        m_photoId m = m_photoId r \<and> m_participantId m = m_participantId r)"
    and s': "s' = s\<lparr>photoParticipantMatches := photoParticipantMatches s @ [r]\<rparr>"
    by (simp_all add: photoParticipantMatch_create_def split: if_splits)
  from fresh have "(m_photoId r, m_participantId r) \<notin> set (match_pairs s)"
    by (auto simp: match_pairs_def)
  with assms(1) show ?thesis by (simp add: s' match_pairs_def)
next
  case (DeleteUser uid)
  with assms(2) have "match_pairs s' = match_pairs (delete_photos (\<lambda>p. ph_uploaderUserId p = uid) s)"
    by (auto simp: user_delete_def Let_def match_pairs_def split: if_splits)
  with assms(1) show ?thesis by (simp add: distinct_pairs_delete_photos)
next
  case (DeleteOrganization oid)
  with assms(2) have "match_pairs s' = match_pairs (delete_events (\<lambda>e. ev_orgId e = oid) s)"
    by (auto simp: organization_delete_def Let_def match_pairs_def split: if_splits)
  with assms(1) show ?thesis by (simp add: distinct_pairs_delete_events)
next
  case (DeleteEvent eid oid)
  with assms show ?thesis
    by (auto simp: event_delete_def distinct_pairs_delete_events split: if_splits)
next
  case (DeleteParticipant pid)
  with assms show ?thesis
    by (auto simp: participant_delete_def distinct_pairs_delete_participants split: if_splits)
next
  case (DeleteEventPhoto pid)
  with assms show ?thesis
    by (auto simp: eventPhoto_delete_def distinct_pairs_delete_photos split: if_splits)
qed (use assms in \<open>auto simp: match_pairs_def user_create_def organization_create_def
      organizationUser_create_def event_create_def participant_create_def eventPhoto_create_def
      detectedFace_create_def faceMatchingTask_create_def consentLog_create_def event_update_def
      split: if_splits\<close>)

lemma reachable_distinct_pairs: "reachable s \<Longrightarrow> distinct (match_pairs s)"
proof (induction rule: reachable.induct)
  case init
  show ?case by (simp add: match_pairs_def empty_store_def)
next
  case (step s op s')
  then show ?case by (blast intro: store_step_distinct_pairs)
qed

lemma distinct_key_count:
  "distinct (map f xs) \<Longrightarrow> length (filter (\<lambda>x. f x = k) xs) \<le> 1"
proof (induction xs)
  case Nil
  show ?case by simp
next
  case (Cons x xs)
  show ?case
  proof (cases "f x = k")
    case True
    with Cons.prems have "k \<notin> f ` set xs" by auto
    then have "filter (\<lambda>x. f x = k) xs = []" by (auto simp: filter_empty_conv)
    with True show ?thesis by simp
  next
    case False
    with Cons show ?thesis by simp
  qed
qed

text \<open>
  Claim C9. In every store built from the empty one by accepted statements, each
  (photoId, participantId) pair has at most one PhotoParticipantMatch row, and the insert of
  a row for a pair that already has one is refused with a unique constraint failure.
\<close>

theorem match_pair_unique:
  assumes "reachable s"
  shows "length (filter (\<lambda>m. m_photoId m = ph \<and> m_participantId m = pa)
                   (photoParticipantMatches s)) \<le> 1
       \<and> ((\<exists>m \<in> set (photoParticipantMatches s).
              m_photoId m = m_photoId row \<and> m_participantId m = m_participantId row)
          \<longrightarrow> (\<exists>cols. photoParticipantMatch_create row s = Inl (UniqueConstraintFailed cols)))"
proof
  have "distinct (map (\<lambda>m. (m_photoId m, m_participantId m)) (photoParticipantMatches s))"
    using reachable_distinct_pairs [OF assms] by (simp add: match_pairs_def)
  from distinct_key_count [OF this, of "(ph, pa)"]
  show "length (filter (\<lambda>m. m_photoId m = ph \<and> m_participantId m = pa)
                   (photoParticipantMatches s)) \<le> 1"
    by simp
next
  show "(\<exists>m \<in> set (photoParticipantMatches s).
              m_photoId m = m_photoId row \<and> m_participantId m = m_participantId row)
          \<longrightarrow> (\<exists>cols. photoParticipantMatch_create row s = Inl (UniqueConstraintFailed cols))"
    by (auto simp: photoParticipantMatch_create_def)
qed

theorem match_pair_unique_witness:
  "reachable sample_store
   \<and> length (filter (\<lambda>m. m_photoId m = ''ph1'' \<and> m_participantId m = ''p1'')
               (photoParticipantMatches sample_store)) \<le> 1
   \<and> (\<exists>m \<in> set (photoParticipantMatches sample_store).
          m_photoId m = m_photoId (match1\<lparr>m_id := ''m2''\<rparr>)
        \<and> m_participantId m = m_participantId (match1\<lparr>m_id := ''m2''\<rparr>))
   \<and> photoParticipantMatch_create (match1\<lparr>m_id := ''m2''\<rparr>) sample_store =
       Inl (UniqueConstraintFailed [''photoId'', ''participantId''])"
  using match_pair_unique [OF reachable_sample_store, of "''ph1''" "''p1''" "match1\<lparr>m_id := ''m2''\<rparr>"]
    reachable_sample_store
  by (simp add: sample_defs photoParticipantMatch_create_def)

subsection \<open>Deleting an event\<close>

lemma delete_photos_fields:
  "users (delete_photos P s) = users s"
  "organizations (delete_photos P s) = organizations s"
  "organizationUsers (delete_photos P s) = organizationUsers s"
  "events (delete_photos P s) = events s"
  "participants (delete_photos P s) = participants s"
  "eventPhotos (delete_photos P s) = filter (\<lambda>p. \<not> P p) (eventPhotos s)"
  "detectedFaces (delete_photos P s) =
     filter (\<lambda>f. df_photoId f \<notin> ph_id ` {p \<in> set (eventPhotos s). P p}) (detectedFaces s)"
  "photoParticipantMatches (delete_photos P s) =
     filter (\<lambda>m. m_photoId m \<notin> ph_id ` {p \<in> set (eventPhotos s). P p}) (photoParticipantMatches s)"
  "faceMatchingTasks (delete_photos P s) = faceMatchingTasks s"
  "consentLogs (delete_photos P s) = consentLogs s"
  by (simp_all add: delete_photos_def Let_def)

lemma delete_participants_fields:
  "users (delete_participants P s) = users s"
  "organizations (delete_participants P s) = organizations s"
  "organizationUsers (delete_participants P s) = organizationUsers s"
  "events (delete_participants P s) = events s"
  "participants (delete_participants P s) = filter (\<lambda>p. \<not> P p) (participants s)"
  "eventPhotos (delete_participants P s) = eventPhotos s"
  "detectedFaces (delete_participants P s) = detectedFaces s"
  "photoParticipantMatches (delete_participants P s) =
     filter (\<lambda>m. m_participantId m \<notin> p_id ` {p \<in> set (participants s). P p})
       (photoParticipantMatches s)"
  "faceMatchingTasks (delete_participants P s) = faceMatchingTasks s"
  "consentLogs (delete_participants P s) =
     map (null_participantId (map p_id (filter P (participants s)))) (consentLogs s)"
  by (simp_all add: delete_participants_def Let_def)

lemma delete_events_fields:
  "users (delete_events P s) = users s"
  "organizations (delete_events P s) = organizations s"
  "organizationUsers (delete_events P s) = organizationUsers s"
  "events (delete_events P s) = filter (\<lambda>e. \<not> P e) (events s)"
  "participants (delete_events P s) =
     filter (\<lambda>p. p_eventId p \<notin> ev_id ` {e \<in> set (events s). P e}) (participants s)"
  "eventPhotos (delete_events P s) =
     filter (\<lambda>p. ph_eventId p \<notin> ev_id ` {e \<in> set (events s). P e}) (eventPhotos s)"
  "detectedFaces (delete_events P s) =
     filter (\<lambda>f. df_photoId f \<notin> ph_id ` {p \<in> set (eventPhotos s).
                    ph_eventId p \<in> ev_id ` {e \<in> set (events s). P e}}) (detectedFaces s)"
  "photoParticipantMatches (delete_events P s) =
     filter (\<lambda>m. m_photoId m \<notin> ph_id ` {p \<in> set (eventPhotos s).
                    ph_eventId p \<in> ev_id ` {e \<in> set (events s). P e}})
       (filter (\<lambda>m. m_participantId m \<notin> p_id ` {p \<in> set (participants s).
                    p_eventId p \<in> ev_id ` {e \<in> set (events s). P e}})
          (photoParticipantMatches s))"
  "faceMatchingTasks (delete_events P s) =
     filter (\<lambda>t. t_eventId t \<notin> ev_id ` {e \<in> set (events s). P e}) (faceMatchingTasks s)"
  "consentLogs (delete_events P s) =
     map (null_eventId (map ev_id (filter P (events s))))
       (map (null_participantId
               (map p_id (filter (\<lambda>p. p_eventId p \<in> ev_id ` {e \<in> set (events s). P e})
                            (participants s))))
          (consentLogs s))"
  by (simp_all add: delete_events_def Let_def delete_photos_fields delete_participants_fields)

lemma find_Some_ex: "(\<exists>x \<in> set xs. P x) \<Longrightarrow> \<exists>y. find P xs = Some y \<and> P y \<and> y \<in> set xs"
  by (induction xs) auto

lemma organizationUser_findFirst_member:
  assumes "\<exists>m \<in> set (organizationUsers s). ou_userId m = uid"
  shows "\<exists>orgUser. organizationUser_findFirst uid s = Some orgUser
           \<and> orgUser \<in> set (organizationUsers s) \<and> ou_userId orgUser = uid"
proof -
  define rows where
    "rows = sort_key ou_orgId (filter (\<lambda>m. ou_userId m = uid) (organizationUsers s))"
  have mem: "set rows = {m \<in> set (organizationUsers s). ou_userId m = uid}"
    by (simp add: rows_def)
  with assms have "rows \<noteq> []" by auto
  then obtain m ms where rows: "rows = m # ms" by (cases rows) auto
  then have "m \<in> set rows" by simp
  with mem have "m \<in> set (organizationUsers s)" "ou_userId m = uid" by auto
  moreover have "organizationUser_findFirst uid s = Some m"
    by (simp add: organizationUser_findFirst_def rows_def [symmetric] rows)
  ultimately show ?thesis by blast
qed

lemma null_eventId_set:
  assumes "set gone = G"
  shows "null_eventId gone c = c\<lparr>cl_eventId := (case cl_eventId c of None \<Rightarrow> None
      | Some k \<Rightarrow> if k \<in> G then None else Some k)\<rparr>"
  using assms by (auto simp: null_eventId_def split: option.splits)

lemma null_participantId_set:
  assumes "set gone = G"
  shows "null_participantId gone c = c\<lparr>cl_participantId := (case cl_participantId c of None \<Rightarrow> None
      | Some k \<Rightarrow> if k \<in> G then None else Some k)\<rparr>"
  using assms by (auto simp: null_participantId_def split: option.splits)

lemma event_delete_action_ok:
  assumes auth: "r_user req = Some u" and post: "r_method req = ''POST''"
    and eid: "eventId \<noteq> []"
    and org: "organizationUser_findFirst (su_id u) (w_db w) = Some orgUser"
    and ev: "\<exists>e \<in> set (events (w_db w)). ev_id e = eventId \<and> ev_orgId e = ou_orgId orgUser"
  shows "eventId_delete_action env req eventId w =
     (Returned (Redirect ''/org/events''),
      \<lparr>w_db = delete_events (\<lambda>e. ev_id e = eventId \<and> ev_orgId e = ou_orgId orgUser) (w_db w),
       w_trace = w_trace w @ [DbWrite (DeleteEvent eventId (ou_orgId orgUser))]\<rparr>)"
proof -
  from find_Some_ex [OF ev] obtain e where
    "event_findFirst eventId (ou_orgId orgUser) (w_db w) = Some e"
    by (auto simp: event_findFirst_def)
  moreover from ev have "db_write (DeleteEvent eventId (ou_orgId orgUser)) w =
      Inr \<lparr>w_db = delete_events (\<lambda>e. ev_id e = eventId \<and> ev_orgId e = ou_orgId orgUser) (w_db w),
       w_trace = w_trace w @ [DbWrite (DeleteEvent eventId (ou_orgId orgUser))]\<rparr>"
    by (simp add: db_write_def event_delete_def)
  ultimately show ?thesis
    using auth post eid org by (simp add: eventId_delete_action_def requireUser_def)
qed

lemma gone_single:
  assumes "\<exists>e \<in> set (events s). ev_id e = eventId \<and> ev_orgId e = oid"
  shows "ev_id ` {e \<in> set (events s). ev_id e = eventId \<and> ev_orgId e = oid} = {eventId}"
  using assms by auto

lemma delete_events_gone:
  assumes G: "ev_id ` {e \<in> set (events s). P e} = G"
  shows "participants (delete_events P s) = filter (\<lambda>p. p_eventId p \<notin> G) (participants s)"
    and "eventPhotos (delete_events P s) = filter (\<lambda>p. ph_eventId p \<notin> G) (eventPhotos s)"
    and "faceMatchingTasks (delete_events P s) =
           filter (\<lambda>t. t_eventId t \<notin> G) (faceMatchingTasks s)"
    and "detectedFaces (delete_events P s) =
           filter (\<lambda>f. df_photoId f \<notin> ph_id ` {p \<in> set (eventPhotos s). ph_eventId p \<in> G})
             (detectedFaces s)"
    and "photoParticipantMatches (delete_events P s) =
           filter (\<lambda>m. m_photoId m \<notin> ph_id ` {p \<in> set (eventPhotos s). ph_eventId p \<in> G})
             (filter (\<lambda>m. m_participantId m \<notin>
                        p_id ` {p \<in> set (participants s). p_eventId p \<in> G})
                (photoParticipantMatches s))"
    and "consentLogs (delete_events P s) =
           map (\<lambda>c. c\<lparr>cl_eventId :=
                        (case cl_eventId c of None \<Rightarrow> None
                         | Some k \<Rightarrow> if k \<in> G then None else Some k),
                      cl_participantId :=
                        (case cl_participantId c of None \<Rightarrow> None
                         | Some k \<Rightarrow>
                             if k \<in> p_id ` {p \<in> set (participants s). p_eventId p \<in> G}
                             then None else Some k)\<rparr>)
             (consentLogs s)"
proof -
  have L: "set (map ev_id (filter P (events s))) = G"
    using G by auto
  show "participants (delete_events P s) = filter (\<lambda>p. p_eventId p \<notin> G) (participants s)"
    and "eventPhotos (delete_events P s) = filter (\<lambda>p. ph_eventId p \<notin> G) (eventPhotos s)"
    and "faceMatchingTasks (delete_events P s) =
           filter (\<lambda>t. t_eventId t \<notin> G) (faceMatchingTasks s)"
    and "detectedFaces (delete_events P s) =
           filter (\<lambda>f. df_photoId f \<notin> ph_id ` {p \<in> set (eventPhotos s). ph_eventId p \<in> G})
             (detectedFaces s)"
    and "photoParticipantMatches (delete_events P s) =
           filter (\<lambda>m. m_photoId m \<notin> ph_id ` {p \<in> set (eventPhotos s). ph_eventId p \<in> G})
             (filter (\<lambda>m. m_participantId m \<notin>
                        p_id ` {p \<in> set (participants s). p_eventId p \<in> G})
                (photoParticipantMatches s))"
    by (simp_all only: delete_events_fields G)
  have P: "set (map p_id (filter (\<lambda>p. p_eventId p \<in> G) (participants s))) =
           p_id ` {p \<in> set (participants s). p_eventId p \<in> G}"
    by auto
  show "consentLogs (delete_events P s) =
           map (\<lambda>c. c\<lparr>cl_eventId :=
                        (case cl_eventId c of None \<Rightarrow> None
                         | Some k \<Rightarrow> if k \<in> G then None else Some k),
                      cl_participantId :=
                        (case cl_participantId c of None \<Rightarrow> None
                         | Some k \<Rightarrow>
                             if k \<in> p_id ` {p \<in> set (participants s). p_eventId p \<in> G}
                             then None else Some k)\<rparr>)
             (consentLogs s)"
    unfolding delete_events_fields(10) G
    by (simp add: null_eventId_set [OF L] null_participantId_set [OF P])
qed

lemma delete_event_consent_logs:
  assumes ev: "\<exists>e \<in> set (events s). ev_id e = eventId \<and> ev_orgId e = oid"
  shows "consentLogs (delete_events (\<lambda>e. ev_id e = eventId \<and> ev_orgId e = oid) s) =
      map (\<lambda>c. c\<lparr>cl_eventId := (if cl_eventId c = Some eventId then None else cl_eventId c),
                 cl_participantId :=
                   (if \<exists>p \<in> set (participants s).
                         p_eventId p = eventId \<and> cl_participantId c = Some (p_id p)
                    then None else cl_participantId c)\<rparr>)
        (consentLogs s)"
  unfolding delete_events_gone(6) [OF gone_single [OF ev]]
proof (rule map_cong [OF refl])
  fix c :: ConsentLog
  have a: "(case cl_eventId c of None \<Rightarrow> None
            | Some k \<Rightarrow> if k \<in> {eventId} then None else Some k)
      = (if cl_eventId c = Some eventId then None else cl_eventId c)"
    by (simp split: option.splits)
  have b: "(case cl_participantId c of None \<Rightarrow> None
            | Some k \<Rightarrow> if k \<in> p_id ` {p \<in> set (participants s). p_eventId p \<in> {eventId}}
                        then None else Some k)
      = (if \<exists>p \<in> set (participants s). p_eventId p = eventId \<and> cl_participantId c = Some (p_id p)
         then None else cl_participantId c)"
    by (auto split: option.splits)
  show "c\<lparr>cl_eventId := case cl_eventId c of None \<Rightarrow> None
              | Some k \<Rightarrow> if k \<in> {eventId} then None else Some k,
           cl_participantId := case cl_participantId c of None \<Rightarrow> None
              | Some k \<Rightarrow> if k \<in> p_id ` {p \<in> set (participants s). p_eventId p \<in> {eventId}}
                          then None else Some k\<rparr>
      = c\<lparr>cl_eventId := (if cl_eventId c = Some eventId then None else cl_eventId c),
          cl_participantId :=
            (if \<exists>p \<in> set (participants s). p_eventId p = eventId \<and> cl_participantId c = Some (p_id p)
             then None else cl_participantId c)\<rparr>"
    unfolding a b ..
qed

text \<open>
  Claim C2. When a member of the owning organization posts to the delete route of an
  existing event, the action succeeds, and afterwards the store holds no Event, Participant,
  EventPhoto or FaceMatchingTask row of that event id, no DetectedFace or
  PhotoParticipantMatch row of a photo or participant that the event had, and no ConsentLog
  row that still names the event; every ConsentLog row is still there, unchanged except
  that a reference to the event or to one of its participants is null.
\<close>

theorem event_delete_cascade:
  assumes auth: "r_user req = Some u" and post: "r_method req = ''POST''"
    and eid: "eventId \<noteq> []"
    and org: "organizationUser_findFirst (su_id u) (w_db w) = Some orgUser"
    and ev: "\<exists>e \<in> set (events (w_db w)). ev_id e = eventId \<and> ev_orgId e = ou_orgId orgUser"
    and pk: "distinct (map ev_id (events (w_db w)))"
  shows "\<exists>w'. eventId_delete_action env req eventId w = (Returned (Redirect ''/org/events''), w')
     \<and> (\<forall>e \<in> set (events (w_db w')). ev_id e \<noteq> eventId)
     \<and> (\<forall>p \<in> set (participants (w_db w')). p_eventId p \<noteq> eventId)
     \<and> (\<forall>p \<in> set (eventPhotos (w_db w')). ph_eventId p \<noteq> eventId)
     \<and> (\<forall>t \<in> set (faceMatchingTasks (w_db w')). t_eventId t \<noteq> eventId)
     \<and> (\<forall>f \<in> set (detectedFaces (w_db w')). \<forall>p \<in> set (eventPhotos (w_db w)).
           ph_eventId p = eventId \<longrightarrow> df_photoId f \<noteq> ph_id p)
     \<and> (\<forall>m \<in> set (photoParticipantMatches (w_db w')).
           (\<forall>p \<in> set (eventPhotos (w_db w)). ph_eventId p = eventId \<longrightarrow> m_photoId m \<noteq> ph_id p)
         \<and> (\<forall>p \<in> set (participants (w_db w)).
               p_eventId p = eventId \<longrightarrow> m_participantId m \<noteq> p_id p))
     \<and> (\<forall>c \<in> set (consentLogs (w_db w')). cl_eventId c \<noteq> Some eventId)
     \<and> consentLogs (w_db w') =
         map (\<lambda>c. c\<lparr>cl_eventId := (if cl_eventId c = Some eventId then None else cl_eventId c),
                    cl_participantId :=
                      (if \<exists>p \<in> set (participants (w_db w)).
                            p_eventId p = eventId \<and> cl_participantId c = Some (p_id p)
                       then None else cl_participantId c)\<rparr>)
           (consentLogs (w_db w))"
proof -
  define s where "s = w_db w"
  define s' where "s' = delete_events (\<lambda>e. ev_id e = eventId \<and> ev_orgId e = ou_orgId orgUser) s"
  define w' where
    "w' = \<lparr>w_db = s', w_trace = w_trace w @ [DbWrite (DeleteEvent eventId (ou_orgId orgUser))]\<rparr>"
  note ev' = ev [folded s_def]
  note F = delete_events_gone [OF gone_single [OF ev'], folded s'_def]
  from ev' obtain e0 where e0: "e0 \<in> set (events s)" "ev_id e0 = eventId"
    "ev_orgId e0 = ou_orgId orgUser" by blast
  have only: "e = e0" if "e \<in> set (events s)" "ev_id e = eventId" for e
  proof -
    from pk have "inj_on ev_id (set (events s))" by (simp add: distinct_map s_def)
    from inj_onD [OF this, of e e0] that e0 show ?thesis by simp
  qed
  have 1: "\<forall>e \<in> set (events s'). ev_id e \<noteq> eventId"
  proof
    fix e
    assume "e \<in> set (events s')"
    then have mem: "e \<in> set (events s)"
      and keep: "\<not> (ev_id e = eventId \<and> ev_orgId e = ou_orgId orgUser)"
      by (simp_all add: s'_def delete_events_fields(4))
    show "ev_id e \<noteq> eventId"
    proof
      assume "ev_id e = eventId"
      with mem have "e = e0" by (rule only)
      with e0 keep show False by simp
    qed
  qed
  have 2: "\<forall>p \<in> set (participants s'). p_eventId p \<noteq> eventId"
    by (simp add: F(1))
  have 3: "\<forall>p \<in> set (eventPhotos s'). ph_eventId p \<noteq> eventId"
    by (simp add: F(2))
  have 4: "\<forall>t \<in> set (faceMatchingTasks s'). t_eventId t \<noteq> eventId"
    by (simp add: F(3))
  have 5: "\<forall>f \<in> set (detectedFaces s'). \<forall>p \<in> set (eventPhotos s).
           ph_eventId p = eventId \<longrightarrow> df_photoId f \<noteq> ph_id p"
    unfolding F(4) by auto
  have 6: "\<forall>m \<in> set (photoParticipantMatches s').
           (\<forall>p \<in> set (eventPhotos s). ph_eventId p = eventId \<longrightarrow> m_photoId m \<noteq> ph_id p)
         \<and> (\<forall>p \<in> set (participants s). p_eventId p = eventId \<longrightarrow> m_participantId m \<noteq> p_id p)"
    unfolding F(5) by auto
  have 8: "consentLogs s' =
         map (\<lambda>c. c\<lparr>cl_eventId := (if cl_eventId c = Some eventId then None else cl_eventId c),
                    cl_participantId :=
                      (if \<exists>p \<in> set (participants s).
                            p_eventId p = eventId \<and> cl_participantId c = Some (p_id p)
                       then None else cl_participantId c)\<rparr>)
           (consentLogs s)"
    unfolding s'_def by (rule delete_event_consent_logs [OF ev'])
  have 7: "\<forall>c \<in> set (consentLogs s'). cl_eventId c \<noteq> Some eventId"
    unfolding 8 by simp
  have "eventId_delete_action env req eventId w = (Returned (Redirect ''/org/events''), w')"
    unfolding w'_def s'_def s_def by (rule event_delete_action_ok [OF auth post eid org ev])
  moreover have "w_db w' = s'" by (simp add: w'_def)
  ultimately show ?thesis
    unfolding s_def [symmetric] using 1 2 3 4 5 6 7 8 by (intro exI [of _ w']) (simp only: simp_thms)
qed

theorem event_delete_cascade_witness:
  "r_user (request_of alice ''POST'' []) = Some (userWithoutPassword alice)
   \<and> r_method (request_of alice ''POST'' []) = ''POST''
   \<and> organizationUser_findFirst (su_id (userWithoutPassword alice)) (w_db sample_world) =
       Some \<lparr>ou_id = ''ou1'', ou_userId = ''u1'', ou_orgId = ''o1'', ou_createdAt = 3,
             ou_updatedAt = 3\<rparr>
   \<and> map ev_id (events (w_db sample_world)) = [''e1'']
   \<and> eventId_delete_action sample_env (request_of alice ''POST'' []) ''e1'' sample_world =
       (Returned (Redirect ''/org/events''),
        \<lparr>w_db = sample_store\<lparr>events := [], participants := [], eventPhotos := [],
                  detectedFaces := [], photoParticipantMatches := [], faceMatchingTasks := [],
                  consentLogs := [consent1\<lparr>cl_eventId := None, cl_participantId := None\<rparr>]\<rparr>,
         w_trace = [DbWrite (DeleteEvent ''e1'' ''o1'')]\<rparr>)"
proof -
  let ?req = "request_of alice ''POST'' []"
  let ?ou = "\<lparr>ou_id = ''ou1'', ou_userId = ''u1'', ou_orgId = ''o1'', ou_createdAt = 3,
             ou_updatedAt = 3\<rparr>"
  have auth: "r_user ?req = Some (userWithoutPassword alice)"
    and post: "r_method ?req = ''POST''"
    by (simp_all add: request_of_def)
  have eid: "''e1'' \<noteq> []" by simp
  have org: "organizationUser_findFirst (su_id (userWithoutPassword alice)) (w_db sample_world)
      = Some ?ou"
    by code_simp
  have ev: "\<exists>e \<in> set (events (w_db sample_world)). ev_id e = ''e1'' \<and> ev_orgId e = ou_orgId ?ou"
    by (simp add: sample_defs)
  have ids: "map ev_id (events (w_db sample_world)) = [''e1'']"
    by (simp add: sample_defs)
  then have pk: "distinct (map ev_id (events (w_db sample_world)))" by simp
  have run: "eventId_delete_action sample_env ?req ''e1'' sample_world =
       (Returned (Redirect ''/org/events''),
        \<lparr>w_db = sample_store\<lparr>events := [], participants := [], eventPhotos := [],
                  detectedFaces := [], photoParticipantMatches := [], faceMatchingTasks := [],
                  consentLogs := [consent1\<lparr>cl_eventId := None, cl_participantId := None\<rparr>]\<rparr>,
         w_trace = [DbWrite (DeleteEvent ''e1'' ''o1'')]\<rparr>)"
    by code_simp
  show ?thesis
    using event_delete_cascade [OF auth post eid org ev pk, of sample_env]
    by - (intro conjI, (rule auth post org ids run)+)
qed

subsection \<open>Consent logs under deletion\<close>

text \<open>
  Claim C3, as the schema has it. Deleting an Event or a Participant deletes no ConsentLog
  row: every row stays, with only its reference to the deleted event, or to a deleted
  participant, set to null. Deleting a User deletes the ConsentLog rows of that user (the
  relation \<^verbatim>\<open>ConsentLog.user\<close> is \<^verbatim>\<open>onDelete: Cascade\<close> on a required column) and
  leaves every other ConsentLog row as it was.
\<close>

theorem consent_logs_after_delete:
  "(event_delete eventId oid s = Inr s1 \<longrightarrow>
      consentLogs s1 =
        map (\<lambda>c. c\<lparr>cl_eventId := (if cl_eventId c = Some eventId then None else cl_eventId c),
                   cl_participantId :=
                     (if \<exists>p \<in> set (participants s).
                           p_eventId p = eventId \<and> cl_participantId c = Some (p_id p)
                      then None else cl_participantId c)\<rparr>)
          (consentLogs s))
   \<and> (participant_delete pid s = Inr s2 \<longrightarrow>
      consentLogs s2 =
        map (\<lambda>c. c\<lparr>cl_participantId :=
                     (if cl_participantId c = Some pid then None else cl_participantId c)\<rparr>)
          (consentLogs s))
   \<and> (user_delete uid s = Inr s3 \<longrightarrow>
      consentLogs s3 = filter (\<lambda>c. cl_userId c \<noteq> uid) (consentLogs s))"
proof (intro conjI impI)
  assume del: "event_delete eventId oid s = Inr s1"
  then have ev: "\<exists>e \<in> set (events s). ev_id e = eventId \<and> ev_orgId e = oid"
    and s1: "s1 = delete_events (\<lambda>e. ev_id e = eventId \<and> ev_orgId e = oid) s"
    by (simp_all add: event_delete_def split: if_splits)
  show "consentLogs s1 =
      map (\<lambda>c. c\<lparr>cl_eventId := (if cl_eventId c = Some eventId then None else cl_eventId c),
                 cl_participantId :=
                   (if \<exists>p \<in> set (participants s).
                         p_eventId p = eventId \<and> cl_participantId c = Some (p_id p)
                    then None else cl_participantId c)\<rparr>)
        (consentLogs s)"
    unfolding s1 by (rule delete_event_consent_logs [OF ev])
next
  assume "participant_delete pid s = Inr s2"
  then have ex: "\<exists>p \<in> set (participants s). p_id p = pid"
    and s2: "s2 = delete_participants (\<lambda>p. p_id p = pid) s"
    by (simp_all add: participant_delete_def split: if_splits)
  have G: "set (map p_id (filter (\<lambda>p. p_id p = pid) (participants s))) = {pid}"
    using ex by auto
  show "consentLogs s2 =
      map (\<lambda>c. c\<lparr>cl_participantId :=
                   (if cl_participantId c = Some pid then None else cl_participantId c)\<rparr>)
        (consentLogs s)"
    unfolding s2 delete_participants_fields(10)
  proof (rule map_cong [OF refl])
    fix c :: ConsentLog
    have "(case cl_participantId c of None \<Rightarrow> None
           | Some k \<Rightarrow> if k \<in> {pid} then None else Some k)
        = (if cl_participantId c = Some pid then None else cl_participantId c)"
      by (simp split: option.splits)
    then show "null_participantId (map p_id (filter (\<lambda>p. p_id p = pid) (participants s))) c
        = c\<lparr>cl_participantId :=
              (if cl_participantId c = Some pid then None else cl_participantId c)\<rparr>"
      unfolding null_participantId_set [OF G] by simp
  qed
next
  assume "user_delete uid s = Inr s3"
  then have "s3 = (let s1 = delete_photos (\<lambda>p. ph_uploaderUserId p = uid) s
              in s1\<lparr>users := filter (\<lambda>u. u_id u \<noteq> uid) (users s1),
                    organizationUsers := filter (\<lambda>m. ou_userId m \<noteq> uid) (organizationUsers s1),
                    participants := map (null_userId uid) (participants s1),
                    consentLogs := filter (\<lambda>c. cl_userId c \<noteq> uid) (consentLogs s1)\<rparr>)"
    by (simp add: user_delete_def Let_def split: if_splits)
  then show "consentLogs s3 = filter (\<lambda>c. cl_userId c \<noteq> uid) (consentLogs s)"
    by (simp add: Let_def delete_photos_fields(10))
qed

theorem consent_logs_after_delete_witness:
  "event_delete ''e1'' ''o1'' sample_store =
     Inr (sample_store\<lparr>events := [], participants := [], eventPhotos := [], detectedFaces := [],
            photoParticipantMatches := [], faceMatchingTasks := [],
            consentLogs := [consent1\<lparr>cl_eventId := None, cl_participantId := None\<rparr>]\<rparr>)
   \<and> participant_delete ''p1'' sample_store =
     Inr (sample_store\<lparr>participants := [], photoParticipantMatches := [],
            consentLogs := [consent1\<lparr>cl_participantId := None\<rparr>]\<rparr>)
   \<and> user_delete ''u2'' sample_store =
     Inr (sample_store\<lparr>users := [alice],
            organizationUsers := [\<lparr>ou_id = ''ou1'', ou_userId = ''u1'', ou_orgId = ''o1'',
                                   ou_createdAt = 3, ou_updatedAt = 3\<rparr>]\<rparr>)
   \<and> consentLogs (sample_store\<lparr>users := [alice],
            organizationUsers := [\<lparr>ou_id = ''ou1'', ou_userId = ''u1'', ou_orgId = ''o1'',
                                   ou_createdAt = 3, ou_updatedAt = 3\<rparr>]\<rparr>) = [consent1]"
proof -
  have a: "event_delete ''e1'' ''o1'' sample_store =
     Inr (sample_store\<lparr>events := [], participants := [], eventPhotos := [], detectedFaces := [],
            photoParticipantMatches := [], faceMatchingTasks := [],
            consentLogs := [consent1\<lparr>cl_eventId := None, cl_participantId := None\<rparr>]\<rparr>)"
    by code_simp
  have b: "participant_delete ''p1'' sample_store =
     Inr (sample_store\<lparr>participants := [], photoParticipantMatches := [],
            consentLogs := [consent1\<lparr>cl_participantId := None\<rparr>]\<rparr>)"
    by code_simp
  have c: "user_delete ''u2'' sample_store =
     Inr (sample_store\<lparr>users := [alice],
            organizationUsers := [\<lparr>ou_id = ''ou1'', ou_userId = ''u1'', ou_orgId = ''o1'',
                                   ou_createdAt = 3, ou_updatedAt = 3\<rparr>]\<rparr>)"
    by code_simp
  have d: "consentLogs (sample_store\<lparr>users := [alice],
            organizationUsers := [\<lparr>ou_id = ''ou1'', ou_userId = ''u1'', ou_orgId = ''o1'',
                                   ou_createdAt = 3, ou_updatedAt = 3\<rparr>]\<rparr>) = [consent1]"
    by code_simp
  show ?thesis
    using consent_logs_after_delete [of "''e1''" "''o1''" sample_store
        "sample_store\<lparr>events := [], participants := [], eventPhotos := [], detectedFaces := [],
            photoParticipantMatches := [], faceMatchingTasks := [],
            consentLogs := [consent1\<lparr>cl_eventId := None, cl_participantId := None\<rparr>]\<rparr>"
        "''p1''"
        "sample_store\<lparr>participants := [], photoParticipantMatches := [],
            consentLogs := [consent1\<lparr>cl_participantId := None\<rparr>]\<rparr>"
        "''u2''"
        "sample_store\<lparr>users := [alice],
            organizationUsers := [\<lparr>ou_id = ''ou1'', ou_userId = ''u1'', ou_orgId = ''o1'',
                                   ou_createdAt = 3, ou_updatedAt = 3\<rparr>]\<rparr>"]
    by - (intro conjI, (rule a b c d)+)
qed

text \<open>
  Claim C3 as stated fails for the User: deleting the user of a consent log entry
  removes the entry.
\<close>

theorem user_delete_drops_consent_logs:
  "map cl_userId (consentLogs sample_store) = [''u1'']
   \<and> map_sum id consentLogs (user_delete ''u1'' sample_store) = Inr []"
  by code_simp

subsection \<open>The intents of the event page\<close>

lemma event_findFirst_ex:
  assumes "\<exists>e \<in> set (events s). ev_id e = eventId \<and> ev_orgId e = oid"
  shows "\<exists>e. event_findFirst eventId oid s = Some e"
  using find_Some_ex [OF assms] by (auto simp: event_findFirst_def)

lemma eventId_action_intent:
  assumes auth: "r_user req = Some u" and eid: "eventId \<noteq> []"
    and org: "organizationUser_findFirst (su_id u) (w_db w) = Some orgUser"
    and ev: "\<exists>e \<in> set (events (w_db w)). ev_id e = eventId \<and> ev_orgId e = ou_orgId orgUser"
  shows "eventId_action env req eventId w =
     (let intent = formData_get (r_form req) ''intent'' in
      if intent = Some (FStr ''uploadPhoto'') then uploadPhoto env u eventId (r_form req) w
      else if intent = Some (FStr ''deletePhoto'') then deletePhoto eventId (r_form req) w
      else if intent = Some (FStr ''initiateFaceMatching'')
        then initiateFaceMatching env eventId w
      else (Returned (Json 400 (JObj [(''intent'', json_of_get intent),
              (''error'', JStr ''Invalid intent''), (''success'', JBool False)])), w))"
proof -
  from event_findFirst_ex [OF ev] obtain e where
    "event_findFirst eventId (ou_orgId orgUser) (w_db w) = Some e" ..
  then show ?thesis
    using auth eid org by (simp add: eventId_action_def requireUser_def)
qed

text \<open>
  Claim C4. For a member of the owning organization, the intent
  \<^verbatim>\<open>initiateFaceMatching\<close> on an event without photos answers 400 with the message about
  photos, whatever the number of participants, and changes nothing; with a photo but no
  participant it answers 400 with the message about participants and changes nothing; with
  both (and an unused task id) it appends one FaceMatchingTask row of status PENDING for the
  event, then calls the compute trigger once, with the event id and the id of that row.
\<close>

theorem initiate_face_matching:
  assumes auth: "r_user req = Some u" and eid: "eventId \<noteq> []"
    and org: "organizationUser_findFirst (su_id u) (w_db w) = Some orgUser"
    and ev: "\<exists>e \<in> set (events (w_db w)). ev_id e = eventId \<and> ev_orgId e = ou_orgId orgUser"
    and intent: "formData_get (r_form req) ''intent'' = Some (FStr ''initiateFaceMatching'')"
  shows "(eventPhoto_count eventId (w_db w) = 0 \<longrightarrow>
            eventId_action env req eventId w =
              (Returned (Json 400 (JObj [(''intent'', JStr ''initiateFaceMatching''),
                 (''error'', JStr ''Cannot initiate matching without uploaded photos.''),
                 (''faceMatchingInitiated'', JBool False)])), w))
       \<and> (0 < eventPhoto_count eventId (w_db w) \<and> participant_count eventId (w_db w) = 0 \<longrightarrow>
            eventId_action env req eventId w =
              (Returned (Json 400 (JObj [(''intent'', JStr ''initiateFaceMatching''),
                 (''error'', JStr ''Cannot initiate matching without added participants.''),
                 (''faceMatchingInitiated'', JBool False)])), w))
       \<and> (0 < eventPhoto_count eventId (w_db w) \<and> 0 < participant_count eventId (w_db w)
            \<and> (\<forall>t \<in> set (faceMatchingTasks (w_db w)). t_id t \<noteq> cuid env) \<longrightarrow>
            eventId_action env req eventId w =
              (Returned (Json 200 (JObj [(''intent'', JStr ''initiateFaceMatching''),
                 (''faceMatchingInitiated'', JBool True), (''taskId'', JStr (cuid env)),
                 (''message'', JStr ''Face matching process initiated successfully.'')])),
               \<lparr>w_db = (w_db w)\<lparr>faceMatchingTasks := faceMatchingTasks (w_db w) @
                    [\<lparr>t_id = cuid env, t_eventId = eventId, t_status = TASK_PENDING,
                      t_startTime = None, t_completionTime = None, t_awsRequestId = None,
                      t_errorDetails = None, t_createdAt = db_now env,
                      t_updatedAt = db_now env\<rparr>]\<rparr>,
                w_trace = w_trace w @
                    [DbWrite (CreateFaceMatchingTask
                       \<lparr>t_id = cuid env, t_eventId = eventId, t_status = TASK_PENDING,
                        t_startTime = None, t_completionTime = None, t_awsRequestId = None,
                        t_errorDetails = None, t_createdAt = db_now env,
                        t_updatedAt = db_now env\<rparr>),
                     LambdaTrigger eventId (cuid env)]\<rparr>))"
proof -
  have act: "eventId_action env req eventId w = initiateFaceMatching env eventId w"
    unfolding eventId_action_intent [OF auth eid org ev] by (simp add: intent)
  from ev have ex: "\<exists>e \<in> set (events (w_db w)). ev_id e = eventId" by blast
  show ?thesis
    unfolding act
    by (intro conjI impI)
      (simp_all add: initiateFaceMatching_def Let_def db_write_def faceMatchingTask_create_def
         ex triggerFaceMatchingLambda_def)
qed

theorem initiate_face_matching_witness:
  "eventId_action sample_env
     (request_of alice ''POST'' [(''intent'', FStr ''initiateFaceMatching'')]) ''e1''
     (sample_world\<lparr>w_db := sample_store\<lparr>eventPhotos := [], detectedFaces := [],
                                        photoParticipantMatches := []\<rparr>\<rparr>) =
     (Returned (Json 400 (JObj [(''intent'', JStr ''initiateFaceMatching''),
        (''error'', JStr ''Cannot initiate matching without uploaded photos.''),
        (''faceMatchingInitiated'', JBool False)])),
      sample_world\<lparr>w_db := sample_store\<lparr>eventPhotos := [], detectedFaces := [],
                                        photoParticipantMatches := []\<rparr>\<rparr>)
   \<and> eventId_action sample_env
     (request_of alice ''POST'' [(''intent'', FStr ''initiateFaceMatching'')]) ''e1''
     (sample_world\<lparr>w_db := sample_store\<lparr>participants := [], photoParticipantMatches := [],
                                        consentLogs := []\<rparr>\<rparr>) =
     (Returned (Json 400 (JObj [(''intent'', JStr ''initiateFaceMatching''),
        (''error'', JStr ''Cannot initiate matching without added participants.''),
        (''faceMatchingInitiated'', JBool False)])),
      sample_world\<lparr>w_db := sample_store\<lparr>participants := [], photoParticipantMatches := [],
                                        consentLogs := []\<rparr>\<rparr>)
   \<and> eventId_action sample_env
     (request_of alice ''POST'' [(''intent'', FStr ''initiateFaceMatching'')]) ''e1''
     sample_world =
     (Returned (Json 200 (JObj [(''intent'', JStr ''initiateFaceMatching''),
        (''faceMatchingInitiated'', JBool True), (''taskId'', JStr ''new1''),
        (''message'', JStr ''Face matching process initiated successfully.'')])),
      \<lparr>w_db = sample_store\<lparr>faceMatchingTasks :=
          [task1, task1\<lparr>t_id := ''new1'', t_createdAt := 1001, t_updatedAt := 1001\<rparr>]\<rparr>,
       w_trace = [DbWrite (CreateFaceMatchingTask
                    (task1\<lparr>t_id := ''new1'', t_createdAt := 1001, t_updatedAt := 1001\<rparr>)),
                  LambdaTrigger ''e1'' ''new1'']\<rparr>)"
proof -
  let ?req = "request_of alice ''POST'' [(''intent'', FStr ''initiateFaceMatching'')]"
  let ?ou = "\<lparr>ou_id = ''ou1'', ou_userId = ''u1'', ou_orgId = ''o1'', ou_createdAt = 3,
             ou_updatedAt = 3\<rparr>"
  let ?w1 = "sample_world\<lparr>w_db := sample_store\<lparr>eventPhotos := [], detectedFaces := [],
                                        photoParticipantMatches := []\<rparr>\<rparr>"
  let ?w2 = "sample_world\<lparr>w_db := sample_store\<lparr>participants := [],
                 photoParticipantMatches := [], consentLogs := []\<rparr>\<rparr>"
  have auth: "r_user ?req = Some (userWithoutPassword alice)"
    and intent: "formData_get (r_form ?req) ''intent'' = Some (FStr ''initiateFaceMatching'')"
    by (simp_all add: request_of_def formData_get_def)
  have eid: "''e1'' \<noteq> []" by simp
  have org1: "organizationUser_findFirst (su_id (userWithoutPassword alice)) (w_db ?w1) = Some ?ou"
    and org2: "organizationUser_findFirst (su_id (userWithoutPassword alice)) (w_db ?w2) = Some ?ou"
    and org3: "organizationUser_findFirst (su_id (userWithoutPassword alice)) (w_db sample_world)
               = Some ?ou"
    by code_simp+
  have ev1: "\<exists>e \<in> set (events (w_db ?w1)). ev_id e = ''e1'' \<and> ev_orgId e = ou_orgId ?ou"
    and ev2: "\<exists>e \<in> set (events (w_db ?w2)). ev_id e = ''e1'' \<and> ev_orgId e = ou_orgId ?ou"
    and ev3: "\<exists>e \<in> set (events (w_db sample_world)). ev_id e = ''e1'' \<and> ev_orgId e = ou_orgId ?ou"
    by (simp_all add: sample_defs)
  have c1: "eventPhoto_count ''e1'' (w_db ?w1) = 0"
    and c2: "0 < eventPhoto_count ''e1'' (w_db ?w2) \<and> participant_count ''e1'' (w_db ?w2) = 0"
    and c3: "0 < eventPhoto_count ''e1'' (w_db sample_world)
             \<and> 0 < participant_count ''e1'' (w_db sample_world)
             \<and> (\<forall>t \<in> set (faceMatchingTasks (w_db sample_world)). t_id t \<noteq> cuid sample_env)"
    by (simp_all add: eventPhoto_count_def participant_count_def sample_defs)
  have r1: "eventId_action sample_env ?req ''e1'' ?w1 =
     (Returned (Json 400 (JObj [(''intent'', JStr ''initiateFaceMatching''),
        (''error'', JStr ''Cannot initiate matching without uploaded photos.''),
        (''faceMatchingInitiated'', JBool False)])), ?w1)"
    using initiate_face_matching [OF auth eid org1 ev1 intent, of sample_env] c1 by blast
  have r2: "eventId_action sample_env ?req ''e1'' ?w2 =
     (Returned (Json 400 (JObj [(''intent'', JStr ''initiateFaceMatching''),
        (''error'', JStr ''Cannot initiate matching without added participants.''),
        (''faceMatchingInitiated'', JBool False)])), ?w2)"
    using initiate_face_matching [OF auth eid org2 ev2 intent, of sample_env] c2 by blast
  have r3: "eventId_action sample_env ?req ''e1'' sample_world =
     (Returned (Json 200 (JObj [(''intent'', JStr ''initiateFaceMatching''),
        (''faceMatchingInitiated'', JBool True), (''taskId'', JStr ''new1''),
        (''message'', JStr ''Face matching process initiated successfully.'')])),
      \<lparr>w_db = sample_store\<lparr>faceMatchingTasks :=
          [task1, task1\<lparr>t_id := ''new1'', t_createdAt := 1001, t_updatedAt := 1001\<rparr>]\<rparr>,
       w_trace = [DbWrite (CreateFaceMatchingTask
                    (task1\<lparr>t_id := ''new1'', t_createdAt := 1001, t_updatedAt := 1001\<rparr>)),
                  LambdaTrigger ''e1'' ''new1'']\<rparr>)"
    by code_simp
  show ?thesis
    using initiate_face_matching [OF auth eid org3 ev3 intent, of sample_env]
    by - (intro conjI, (rule r1 r2 r3)+)
qed

lemma deletePhoto_order:
  assumes "deletePhoto eventId form w = (out, w2)"
  shows "w2 = w \<or>
     (\<exists>pid url. w_trace w2 = w_trace w @ [DbWrite (DeleteEventPhoto pid), StorageDelete url]
        \<and> (\<forall>p \<in> set (eventPhotos (w_db w2)). ph_id p \<noteq> pid))"
  using assms
  by (auto simp: deletePhoto_def Let_def db_write_def eventPhoto_delete_def
      deleteFileFromStorage_def delete_photos_fields(6)
      split: option.splits formValue.splits if_splits sum.splits)

lemma delete_photo_by_id:
  "eventPhotos (delete_photos (\<lambda>p. ph_id p = photoId) s) =
     filter (\<lambda>p. ph_id p \<noteq> photoId) (eventPhotos s)"
  by (simp add: delete_photos_fields(6))

text \<open>
  Claim C7. For a member of the owning organization who names a photo id, the intent
  \<^verbatim>\<open>deletePhoto\<close> answers 404 and leaves the store and the effect trace as they were
  when the event has no photo of that id. When it has one, the action first has the store
  delete the row, and only then, in a world whose store no longer holds a photo of that id,
  asks the storage stub to delete the image of the row it found: the trace grows by exactly
  these two effects, in this order. Whatever the form is, the intent either leaves the world
  as it was or adds exactly a store delete followed by a storage delete, and then the store
  holds no photo of the deleted id.
\<close>

theorem delete_photo:
  assumes auth: "r_user req = Some u" and eid: "eventId \<noteq> []"
    and org: "organizationUser_findFirst (su_id u) (w_db w) = Some orgUser"
    and ev: "\<exists>e \<in> set (events (w_db w)). ev_id e = eventId \<and> ev_orgId e = ou_orgId orgUser"
    and intent: "formData_get (r_form req) ''intent'' = Some (FStr ''deletePhoto'')"
    and pid: "formData_get (r_form req) ''photoId'' = Some (FStr photoId)" "photoId \<noteq> []"
  shows "(\<not> (\<exists>p \<in> set (eventPhotos (w_db w)). ph_id p = photoId \<and> ph_eventId p = eventId) \<longrightarrow>
            eventId_action env req eventId w =
              (Returned (Json 404 (JObj [(''intent'', JStr ''deletePhoto''),
                 (''error'', JStr ''Photo not found or access denied.''),
                 (''photoDeleteSuccess'', JBool False)])), w))
       \<and> (\<forall>photo. eventPhoto_findFirst photoId eventId (w_db w) = Some photo \<longrightarrow>
            (\<exists>w1. db_write (DeleteEventPhoto photoId) w = Inr w1
               \<and> (\<forall>p \<in> set (eventPhotos (w_db w1)). ph_id p \<noteq> photoId)
               \<and> w_trace w1 = w_trace w @ [DbWrite (DeleteEventPhoto photoId)]
               \<and> eventId_action env req eventId w =
                   (Returned (Json 200 (JObj [(''intent'', JStr ''deletePhoto''),
                      (''photoDeleteSuccess'', JBool True), (''deletedPhotoId'', JStr photoId),
                      (''message'', JStr ''Photo deleted successfully.'')])),
                    deleteFileFromStorage (ph_imageUrl photo) w1)
               \<and> w_db (deleteFileFromStorage (ph_imageUrl photo) w1) = w_db w1
               \<and> w_trace (deleteFileFromStorage (ph_imageUrl photo) w1) =
                   w_trace w @ [DbWrite (DeleteEventPhoto photoId),
                                StorageDelete (ph_imageUrl photo)]))
       \<and> (\<forall>form out w2. deletePhoto eventId form w = (out, w2) \<longrightarrow>
            w2 = w \<or>
            (\<exists>pid url.
               w_trace w2 = w_trace w @ [DbWrite (DeleteEventPhoto pid), StorageDelete url]
             \<and> (\<forall>p \<in> set (eventPhotos (w_db w2)). ph_id p \<noteq> pid)))"
proof (intro conjI impI allI)
  have act: "eventId_action env req eventId w = deletePhoto eventId (r_form req) w"
    unfolding eventId_action_intent [OF auth eid org ev] by (simp add: intent)
  {
    assume "\<not> (\<exists>p \<in> set (eventPhotos (w_db w)). ph_id p = photoId \<and> ph_eventId p = eventId)"
    then have "eventPhoto_findFirst photoId eventId (w_db w) = None"
      by (simp add: eventPhoto_findFirst_def find_None_iff)
    then show "eventId_action env req eventId w =
              (Returned (Json 404 (JObj [(''intent'', JStr ''deletePhoto''),
                 (''error'', JStr ''Photo not found or access denied.''),
                 (''photoDeleteSuccess'', JBool False)])), w)"
      unfolding act by (simp add: deletePhoto_def Let_def pid)
  }
  {
    fix photo
    assume found: "eventPhoto_findFirst photoId eventId (w_db w) = Some photo"
    then have "photo \<in> set (eventPhotos (w_db w)) \<and> ph_id photo = photoId"
      by (auto simp: eventPhoto_findFirst_def find_Some_iff)
    then have ex: "\<exists>p \<in> set (eventPhotos (w_db w)). ph_id p = photoId" by blast
    define w1 where "w1 = \<lparr>w_db = delete_photos (\<lambda>p. ph_id p = photoId) (w_db w),
                           w_trace = w_trace w @ [DbWrite (DeleteEventPhoto photoId)]\<rparr>"
    have wr: "db_write (DeleteEventPhoto photoId) w = Inr w1"
      using ex by (simp add: db_write_def eventPhoto_delete_def w1_def)
    have gone: "\<forall>p \<in> set (eventPhotos (w_db w1)). ph_id p \<noteq> photoId"
      by (simp add: w1_def delete_photo_by_id)
    have tr: "w_trace w1 = w_trace w @ [DbWrite (DeleteEventPhoto photoId)]"
      by (simp add: w1_def)
    have res: "eventId_action env req eventId w =
                   (Returned (Json 200 (JObj [(''intent'', JStr ''deletePhoto''),
                      (''photoDeleteSuccess'', JBool True), (''deletedPhotoId'', JStr photoId),
                      (''message'', JStr ''Photo deleted successfully.'')])),
                    deleteFileFromStorage (ph_imageUrl photo) w1)"
      unfolding act by (simp add: deletePhoto_def Let_def pid found wr)
    have db: "w_db (deleteFileFromStorage (ph_imageUrl photo) w1) = w_db w1"
      and tr': "w_trace (deleteFileFromStorage (ph_imageUrl photo) w1) =
                   w_trace w @ [DbWrite (DeleteEventPhoto photoId),
                                StorageDelete (ph_imageUrl photo)]"
      by (simp_all add: deleteFileFromStorage_def tr)
    from wr gone tr res db tr'
    show "\<exists>w1. db_write (DeleteEventPhoto photoId) w = Inr w1
               \<and> (\<forall>p \<in> set (eventPhotos (w_db w1)). ph_id p \<noteq> photoId)
               \<and> w_trace w1 = w_trace w @ [DbWrite (DeleteEventPhoto photoId)]
               \<and> eventId_action env req eventId w =
                   (Returned (Json 200 (JObj [(''intent'', JStr ''deletePhoto''),
                      (''photoDeleteSuccess'', JBool True), (''deletedPhotoId'', JStr photoId),
                      (''message'', JStr ''Photo deleted successfully.'')])),
                    deleteFileFromStorage (ph_imageUrl photo) w1)
               \<and> w_db (deleteFileFromStorage (ph_imageUrl photo) w1) = w_db w1
               \<and> w_trace (deleteFileFromStorage (ph_imageUrl photo) w1) =
                   w_trace w @ [DbWrite (DeleteEventPhoto photoId),
                                StorageDelete (ph_imageUrl photo)]"
      by (intro exI [of _ w1]) (simp only: simp_thms)
  }
  {
    fix form out w2
    assume "deletePhoto eventId form w = (out, w2)"
    then show "w2 = w \<or>
            (\<exists>pid url.
               w_trace w2 = w_trace w @ [DbWrite (DeleteEventPhoto pid), StorageDelete url]
             \<and> (\<forall>p \<in> set (eventPhotos (w_db w2)). ph_id p \<noteq> pid))"
      by (rule deletePhoto_order)
  }
qed

theorem delete_photo_witness:
  "eventId_action sample_env
     (request_of alice ''POST'' [(''intent'', FStr ''deletePhoto''), (''photoId'', FStr ''zzz'')])
     ''e1'' sample_world =
     (Returned (Json 404 (JObj [(''intent'', JStr ''deletePhoto''),
        (''error'', JStr ''Photo not found or access denied.''),
        (''photoDeleteSuccess'', JBool False)])), sample_world)
   \<and> eventPhoto_findFirst ''ph1'' ''e1'' (w_db sample_world) = Some shot
   \<and> eventId_action sample_env
     (request_of alice ''POST'' [(''intent'', FStr ''deletePhoto''), (''photoId'', FStr ''ph1'')])
     ''e1'' sample_world =
     (Returned (Json 200 (JObj [(''intent'', JStr ''deletePhoto''),
        (''photoDeleteSuccess'', JBool True), (''deletedPhotoId'', JStr ''ph1''),
        (''message'', JStr ''Photo deleted successfully.'')])),
      \<lparr>w_db = sample_store\<lparr>eventPhotos := [], detectedFaces := [],
                             photoParticipantMatches := []\<rparr>,
       w_trace = [DbWrite (DeleteEventPhoto ''ph1''),
                  StorageDelete ''/placeholder-storage/events/e1/photos/7-a.png'']\<rparr>)"
proof -
  let ?miss = "request_of alice ''POST''
                 [(''intent'', FStr ''deletePhoto''), (''photoId'', FStr ''zzz'')]"
  let ?hit = "request_of alice ''POST''
                 [(''intent'', FStr ''deletePhoto''), (''photoId'', FStr ''ph1'')]"
  let ?ou = "\<lparr>ou_id = ''ou1'', ou_userId = ''u1'', ou_orgId = ''o1'', ou_createdAt = 3,
             ou_updatedAt = 3\<rparr>"
  have auth: "r_user ?miss = Some (userWithoutPassword alice)"
    and intent: "formData_get (r_form ?miss) ''intent'' = Some (FStr ''deletePhoto'')"
    and pid: "formData_get (r_form ?miss) ''photoId'' = Some (FStr ''zzz'')" "''zzz'' \<noteq> []"
    and auth': "r_user ?hit = Some (userWithoutPassword alice)"
    and intent': "formData_get (r_form ?hit) ''intent'' = Some (FStr ''deletePhoto'')"
    and pid': "formData_get (r_form ?hit) ''photoId'' = Some (FStr ''ph1'')" "''ph1'' \<noteq> []"
    by (simp_all add: request_of_def formData_get_def)
  have eid: "''e1'' \<noteq> []" by simp
  have org: "organizationUser_findFirst (su_id (userWithoutPassword alice)) (w_db sample_world)
               = Some ?ou"
    by code_simp
  have ev: "\<exists>e \<in> set (events (w_db sample_world)). ev_id e = ''e1'' \<and> ev_orgId e = ou_orgId ?ou"
    by (simp add: sample_defs)
  have none: "\<not> (\<exists>p \<in> set (eventPhotos (w_db sample_world)).
                   ph_id p = ''zzz'' \<and> ph_eventId p = ''e1'')"
    by (simp add: sample_defs)
  have found: "eventPhoto_findFirst ''ph1'' ''e1'' (w_db sample_world) = Some shot"
    by code_simp
  have r1: "eventId_action sample_env ?miss ''e1'' sample_world =
     (Returned (Json 404 (JObj [(''intent'', JStr ''deletePhoto''),
        (''error'', JStr ''Photo not found or access denied.''),
        (''photoDeleteSuccess'', JBool False)])), sample_world)"
    using delete_photo [OF auth eid org ev intent pid, of sample_env] none by blast
  have r2: "eventId_action sample_env ?hit ''e1'' sample_world =
     (Returned (Json 200 (JObj [(''intent'', JStr ''deletePhoto''),
        (''photoDeleteSuccess'', JBool True), (''deletedPhotoId'', JStr ''ph1''),
        (''message'', JStr ''Photo deleted successfully.'')])),
      \<lparr>w_db = sample_store\<lparr>eventPhotos := [], detectedFaces := [],
                             photoParticipantMatches := []\<rparr>,
       w_trace = [DbWrite (DeleteEventPhoto ''ph1''),
                  StorageDelete ''/placeholder-storage/events/e1/photos/7-a.png'']\<rparr>)"
    by code_simp
  show ?thesis
    using delete_photo [OF auth' eid org ev intent' pid', of sample_env]
    by - (intro conjI, (rule r1 r2 found)+)
qed

subsection \<open>Creating a participant\<close>

lemma ParticipantSchema_ok:
  "ParticipantSchema_safeParse env payload = Inr d \<longleftrightarrow>
     map_of payload ''name'' = Some (FStr (pd_name d)) \<and> pd_name d \<noteq> []
     \<and> map_of payload ''email'' = Some (FStr (pd_email d)) \<and> zod_email env (pd_email d)"
  by (cases d)
    (auto simp: ParticipantSchema_safeParse_def z_string_def z_min1_def Let_def
      split: option.splits formValue.splits sum.splits if_splits)

lemma participants_new_action_parsed:
  assumes auth: "r_user req = Some u" and eid: "eventId \<noteq> []"
    and org: "organizationUser_findFirst (su_id u) (w_db w) = Some orgUser"
    and ev: "\<exists>e \<in> set (events (w_db w)). ev_id e = eventId \<and> ev_orgId e = ou_orgId orgUser"
    and parsed: "ParticipantSchema_safeParse env (fromEntries (r_form req)) = Inr submission"
  shows "participants_new_action env req eventId w =
     (case participant_findFirst eventId (pd_email submission) (w_db w) of
        Some existingParticipant \<Rightarrow>
          (Returned (Json 400 (JObj [(''errors'', JObj [(''email'',
             JStr (''A participant with this email already exists '' @
                   ''for this event.''))])])), w)
      | None \<Rightarrow>
          (case db_write (CreateParticipant
                  \<lparr>p_id = cuid env, p_eventId = eventId, p_userId = None,
                   p_name = Some (pd_name submission), p_email = Some (pd_email submission),
                   p_registrationStatus = Some ''Invited'', p_consentStatus = False,
                   p_referencePhotoUrl = None, p_createdAt = db_now env,
                   p_updatedAt = db_now env\<rparr>) w of
             Inl error \<Rightarrow>
               (Returned (Json 500 (JObj [(''errors'', JObj [(''form'',
                  JStr (''Failed to add participant. '' @ ''Please try again later.''))])])), w)
           | Inr w1 \<Rightarrow>
               (Returned (Redirect (''/org/events/'' @ eventId @ ''/participants'')), w1)))"
proof -
  from event_findFirst_ex [OF ev] obtain e where
    "event_findFirst eventId (ou_orgId orgUser) (w_db w) = Some e" ..
  then show ?thesis
    using auth eid org parsed by (simp add: participants_new_action_def requireUser_def)
qed

text \<open>
  Claim C5. For a member of the owning organization who submits a non-empty name and a
  well-formed email, the action answers 400 with the duplicate-email message on the email
  field whenever the event already has a participant of that email, and leaves the store
  and the trace as they were. The store itself has no such constraint: it accepts the
  insert of a Participant row with the same event and email.
\<close>

theorem duplicate_email_rejected:
  assumes auth: "r_user req = Some u" and eid: "eventId \<noteq> []"
    and org: "organizationUser_findFirst (su_id u) (w_db w) = Some orgUser"
    and ev: "\<exists>e \<in> set (events (w_db w)). ev_id e = eventId \<and> ev_orgId e = ou_orgId orgUser"
    and name: "map_of (fromEntries (r_form req)) ''name'' = Some (FStr name)" "name \<noteq> []"
    and email: "map_of (fromEntries (r_form req)) ''email'' = Some (FStr email)"
      "zod_email env email"
    and dup: "\<exists>p \<in> set (participants (w_db w)). p_eventId p = eventId \<and> p_email p = Some email"
  shows "participants_new_action env req eventId w =
           (Returned (Json 400 (JObj [(''errors'', JObj [(''email'',
              JStr ''A participant with this email already exists for this event.'')])])), w)
       \<and> (\<forall>row. p_eventId row = eventId \<and> p_email row = Some email \<and> p_userId row = None
              \<and> (\<forall>p \<in> set (participants (w_db w)). p_id p \<noteq> p_id row) \<longrightarrow>
            participant_create row (w_db w) =
              Inr ((w_db w)\<lparr>participants := participants (w_db w) @ [row]\<rparr>))"
proof
  have parsed: "ParticipantSchema_safeParse env (fromEntries (r_form req)) =
      Inr \<lparr>pd_name = name, pd_email = email\<rparr>"
    unfolding ParticipantSchema_ok using name email by simp
  from find_Some_ex [OF dup] obtain p where
    "participant_findFirst eventId email (w_db w) = Some p"
    by (auto simp: participant_findFirst_def)
  then show "participants_new_action env req eventId w =
           (Returned (Json 400 (JObj [(''errors'', JObj [(''email'',
              JStr ''A participant with this email already exists for this event.'')])])), w)"
    unfolding participants_new_action_parsed [OF auth eid org ev parsed] by simp
next
  from ev have ex: "\<exists>e \<in> set (events (w_db w)). ev_id e = eventId" by blast
  show "\<forall>row. p_eventId row = eventId \<and> p_email row = Some email \<and> p_userId row = None
              \<and> (\<forall>p \<in> set (participants (w_db w)). p_id p \<noteq> p_id row) \<longrightarrow>
            participant_create row (w_db w) =
              Inr ((w_db w)\<lparr>participants := participants (w_db w) @ [row]\<rparr>)"
    using ex by (auto simp: participant_create_def dangling_def)
qed

theorem duplicate_email_rejected_witness:
  "(\<exists>p \<in> set (participants (w_db sample_world)).
       p_eventId p = ''e1'' \<and> p_email p = Some ''a@example.com'')
   \<and> participants_new_action sample_env
       (request_of alice ''POST'' [(''name'', FStr ''Ann B''), (''email'', FStr ''a@example.com'')])
       ''e1'' sample_world =
       (Returned (Json 400 (JObj [(''errors'', JObj [(''email'',
          JStr ''A participant with this email already exists for this event.'')])])),
        sample_world)
   \<and> participant_create (guest\<lparr>p_id := ''p2''\<rparr>) (w_db sample_world) =
       Inr (sample_store\<lparr>participants := [guest, guest\<lparr>p_id := ''p2''\<rparr>]\<rparr>)"
proof -
  let ?req = "request_of alice ''POST''
                [(''name'', FStr ''Ann B''), (''email'', FStr ''a@example.com'')]"
  let ?ou = "\<lparr>ou_id = ''ou1'', ou_userId = ''u1'', ou_orgId = ''o1'', ou_createdAt = 3,
             ou_updatedAt = 3\<rparr>"
  have auth: "r_user ?req = Some (userWithoutPassword alice)"
    by (simp add: request_of_def)
  have eid: "''e1'' \<noteq> []" by simp
  have org: "organizationUser_findFirst (su_id (userWithoutPassword alice)) (w_db sample_world)
               = Some ?ou"
    by code_simp
  have ev: "\<exists>e \<in> set (events (w_db sample_world)). ev_id e = ''e1'' \<and> ev_orgId e = ou_orgId ?ou"
    by (simp add: sample_defs)
  have name: "map_of (fromEntries (r_form ?req)) ''name'' = Some (FStr ''Ann B'')"
      "''Ann B'' \<noteq> []"
    and email: "map_of (fromEntries (r_form ?req)) ''email'' = Some (FStr ''a@example.com'')"
      "zod_email sample_env ''a@example.com''"
    by (simp_all add: request_of_def sample_env_def)
  have dup: "\<exists>p \<in> set (participants (w_db sample_world)).
               p_eventId p = ''e1'' \<and> p_email p = Some ''a@example.com''"
    by (simp add: sample_defs)
  note T = duplicate_email_rejected [OF auth eid org ev name email dup]
  have row: "p_eventId (guest\<lparr>p_id := ''p2''\<rparr>) = ''e1''
      \<and> p_email (guest\<lparr>p_id := ''p2''\<rparr>) = Some ''a@example.com''
      \<and> p_userId (guest\<lparr>p_id := ''p2''\<rparr>) = None
      \<and> (\<forall>p \<in> set (participants (w_db sample_world)). p_id p \<noteq> p_id (guest\<lparr>p_id := ''p2''\<rparr>))"
    by (simp add: sample_defs)
  have "participant_create (guest\<lparr>p_id := ''p2''\<rparr>) (w_db sample_world) =
       Inr ((w_db sample_world)\<lparr>participants :=
              participants (w_db sample_world) @ [guest\<lparr>p_id := ''p2''\<rparr>]\<rparr>)"
    using T row by blast
  then have r2: "participant_create (guest\<lparr>p_id := ''p2''\<rparr>) (w_db sample_world) =
       Inr (sample_store\<lparr>participants := [guest, guest\<lparr>p_id := ''p2''\<rparr>]\<rparr>)"
    by (simp add: sample_world_def sample_store_def)
  from T have r1: "participants_new_action sample_env ?req ''e1'' sample_world =
       (Returned (Json 400 (JObj [(''errors'', JObj [(''email'',
          JStr ''A participant with this email already exists for this event.'')])])),
        sample_world)" ..
  from dup r1 r2 show ?thesis by (intro conjI)
qed

text \<open>
  Claim C8. Whenever the action that creates a participant succeeds (it returns the
  redirect to the participant list), the store has gained exactly one Participant row, whose
  registrationStatus is \<^verbatim>\<open>Invited\<close> and whose consentStatus is false; its name and email
  are the submitted ones, and no other entry of the form reaches the row.
\<close>

theorem created_participant_defaults:
  assumes ok: "participants_new_action env req eventId w = (Returned (Redirect url), w')"
  shows "\<exists>name email.
           map_of (fromEntries (r_form req)) ''name'' = Some (FStr name)
         \<and> map_of (fromEntries (r_form req)) ''email'' = Some (FStr email)
         \<and> w_db w' = (w_db w)\<lparr>participants := participants (w_db w) @
             [\<lparr>p_id = cuid env, p_eventId = eventId, p_userId = None, p_name = Some name,
               p_email = Some email, p_registrationStatus = Some ''Invited'',
               p_consentStatus = False, p_referencePhotoUrl = None, p_createdAt = db_now env,
               p_updatedAt = db_now env\<rparr>]\<rparr>"
proof -
  from ok obtain d w1 where
    parsed: "ParticipantSchema_safeParse env (fromEntries (r_form req)) = Inr d"
    and wr: "db_write (CreateParticipant
                  \<lparr>p_id = cuid env, p_eventId = eventId, p_userId = None,
                   p_name = Some (pd_name d), p_email = Some (pd_email d),
                   p_registrationStatus = Some ''Invited'', p_consentStatus = False,
                   p_referencePhotoUrl = None, p_createdAt = db_now env,
                   p_updatedAt = db_now env\<rparr>) w = Inr w1"
    and w': "w' = w1"
    by (auto simp: participants_new_action_def
        split: sum.splits option.splits if_splits)
  from wr have "w_db w1 = (w_db w)\<lparr>participants := participants (w_db w) @
             [\<lparr>p_id = cuid env, p_eventId = eventId, p_userId = None, p_name = Some (pd_name d),
               p_email = Some (pd_email d), p_registrationStatus = Some ''Invited'',
               p_consentStatus = False, p_referencePhotoUrl = None, p_createdAt = db_now env,
               p_updatedAt = db_now env\<rparr>]\<rparr>"
    by (auto simp: db_write_def participant_create_def split: sum.splits if_splits)
  with parsed [unfolded ParticipantSchema_ok] w' show ?thesis by blast
qed

theorem created_participant_defaults_witness:
  "participants_new_action sample_env
     (request_of alice ''POST''
        [(''name'', FStr ''Cy''), (''email'', FStr ''cy@example.com''),
         (''registrationStatus'', FStr ''Attended''), (''consentStatus'', FStr ''true'')])
     ''e1'' sample_world =
     (Returned (Redirect ''/org/events/e1/participants''),
      \<lparr>w_db = sample_store\<lparr>participants :=
          [guest,
           \<lparr>p_id = ''new1'', p_eventId = ''e1'', p_userId = None, p_name = Some ''Cy'',
            p_email = Some ''cy@example.com'', p_registrationStatus = Some ''Invited'',
            p_consentStatus = False, p_referencePhotoUrl = None, p_createdAt = 1001,
            p_updatedAt = 1001\<rparr>]\<rparr>,
       w_trace = [DbWrite (CreateParticipant
           \<lparr>p_id = ''new1'', p_eventId = ''e1'', p_userId = None, p_name = Some ''Cy'',
            p_email = Some ''cy@example.com'', p_registrationStatus = Some ''Invited'',
            p_consentStatus = False, p_referencePhotoUrl = None, p_createdAt = 1001,
            p_updatedAt = 1001\<rparr>)]\<rparr>)"
proof -
  have run: "participants_new_action sample_env
     (request_of alice ''POST''
        [(''name'', FStr ''Cy''), (''email'', FStr ''cy@example.com''),
         (''registrationStatus'', FStr ''Attended''), (''consentStatus'', FStr ''true'')])
     ''e1'' sample_world =
     (Returned (Redirect ''/org/events/e1/participants''),
      \<lparr>w_db = sample_store\<lparr>participants :=
          [guest,
           \<lparr>p_id = ''new1'', p_eventId = ''e1'', p_userId = None, p_name = Some ''Cy'',
            p_email = Some ''cy@example.com'', p_registrationStatus = Some ''Invited'',
            p_consentStatus = False, p_referencePhotoUrl = None, p_createdAt = 1001,
            p_updatedAt = 1001\<rparr>]\<rparr>,
       w_trace = [DbWrite (CreateParticipant
           \<lparr>p_id = ''new1'', p_eventId = ''e1'', p_userId = None, p_name = Some ''Cy'',
            p_email = Some ''cy@example.com'', p_registrationStatus = Some ''Invited'',
            p_consentStatus = False, p_referencePhotoUrl = None, p_createdAt = 1001,
            p_updatedAt = 1001\<rparr>)]\<rparr>)"
    by code_simp
  show ?thesis
    using created_participant_defaults [OF run] by - (rule run)
qed

subsection \<open>Failed logins\<close>

text \<open>
  The two failures that the callback raises itself carry the same message. For a login form
  with the email and password entries present, the action answers the same way on a store
  with no User row of the submitted email as on a store where the row exists and the
  password comparison resolves to false; when neither entry is empty, both answers are the
  401 response that flashes \<^verbatim>\<open>Invalid login credentials.\<close>
\<close>

lemma login_failures_identical:
  assumes email: "formData_get (r_form req) ''email'' = Some (FStr address)"
    and password: "formData_get (r_form req) ''password'' = Some pw"
    and absent: "user_findUnique address s1 = None"
    and present: "user_findUnique address s2 = Some user"
    and mismatch: "bcrypt_compare env pw (u_passwordHash user) = Inr False"
  shows "login_action env req s2 = login_action env req s1
       \<and> verify env (r_form req) s2 = verify env (r_form req) s1
       \<and> (address \<noteq> [] \<and> pw \<noteq> FStr [] \<longrightarrow>
            verify env (r_form req) s1 = Inl (Error ''Invalid login credentials.'')
          \<and> login_action env req s1 =
              Returned (Unauthorized (r_user req) ''Invalid login credentials.''))"
proof -
  have v1: "verify env (r_form req) s1 =
      (if address = [] \<or> pw = FStr [] then Inl (Error ''Email and password are required.'')
       else Inl (Error ''Invalid login credentials.''))"
    by (simp add: verify_def falsy_def email password absent)
  have v2: "verify env (r_form req) s2 =
      (if address = [] \<or> pw = FStr [] then Inl (Error ''Email and password are required.'')
       else Inl (Error ''Invalid login credentials.''))"
    by (simp add: verify_def falsy_def email password present mismatch)
  show ?thesis
    by (simp add: login_action_def v1 v2 message_def)
qed

lemma login_failures_identical_sample:
  "user_findUnique ''carol@c.example'' sample_store = None
   \<and> user_findUnique ''alice@a.example'' sample_store = Some alice
   \<and> bcrypt_compare sample_env (FStr ''guess'') (u_passwordHash alice) = Inr False
   \<and> login_action sample_env
       \<lparr>r_method = ''POST'', r_user = None,
        r_form = [(''email'', FStr ''alice@a.example''), (''password'', FStr ''guess'')]\<rparr>
       (sample_store\<lparr>users := [bob]\<rparr>) =
     Returned (Unauthorized None ''Invalid login credentials.'')
   \<and> login_action sample_env
       \<lparr>r_method = ''POST'', r_user = None,
        r_form = [(''email'', FStr ''alice@a.example''), (''password'', FStr ''guess'')]\<rparr>
       sample_store =
     Returned (Unauthorized None ''Invalid login credentials.'')
   \<and> login_action sample_env
       \<lparr>r_method = ''POST'', r_user = None,
        r_form = [(''email'', FStr ''alice@a.example''), (''password'', FStr ''wonderland'')]\<rparr>
       sample_store =
     Returned (LoggedIn ''/org'' (userWithoutPassword alice))"
proof -
  let ?req = "\<lparr>r_method = ''POST'', r_user = None,
        r_form = [(''email'', FStr ''alice@a.example''), (''password'', FStr ''guess'')]\<rparr>"
  have email: "formData_get (r_form ?req) ''email'' = Some (FStr ''alice@a.example'')"
    and password: "formData_get (r_form ?req) ''password'' = Some (FStr ''guess'')"
    by (simp_all add: formData_get_def)
  have absent: "user_findUnique ''alice@a.example'' (sample_store\<lparr>users := [bob]\<rparr>) = None"
    and present: "user_findUnique ''alice@a.example'' sample_store = Some alice"
    and other: "user_findUnique ''carol@c.example'' sample_store = None"
    by (simp_all add: user_findUnique_def sample_defs)
  have mismatch: "bcrypt_compare sample_env (FStr ''guess'') (u_passwordHash alice) = Inr False"
    by (simp add: sample_defs)
  note T = login_failures_identical [OF email password absent present mismatch]
  have ne: "''alice@a.example'' \<noteq> [] \<and> FStr ''guess'' \<noteq> FStr []" by simp
  from T ne have r1: "login_action sample_env ?req (sample_store\<lparr>users := [bob]\<rparr>) =
      Returned (Unauthorized None ''Invalid login credentials.'')"
    by simp
  with T have r2: "login_action sample_env ?req sample_store =
      Returned (Unauthorized None ''Invalid login credentials.'')"
    by simp
  have r3: "login_action sample_env
       \<lparr>r_method = ''POST'', r_user = None,
        r_form = [(''email'', FStr ''alice@a.example''), (''password'', FStr ''wonderland'')]\<rparr>
       sample_store =
     Returned (LoggedIn ''/org'' (userWithoutPassword alice))"
    by code_simp
  from other present mismatch r1 r2 r3 show ?thesis by (intro conjI)
qed

text \<open>
  Claim C10 says that a failed login does not tell whether the email is registered, and
  the callback's own comment gives that as the purpose of its generic message. The callback
  does not catch a rejection of \<^verbatim>\<open>bcrypt.compare\<close>, though, and the comparison runs
  only when the User row exists. So whenever the comparison rejects a submitted password
  with a message of its own, the login for a registered email flashes that message, the same
  login for an unknown email flashes \<^verbatim>\<open>Invalid login credentials.\<close>, and the two
  answers differ. A \<^verbatim>\<open>File\<close> sent as the password is such an input: it is truthy, so
  it passes the guard, and the comparison rejects an argument that is not a string.
\<close>

theorem rejected_compare_reveals_registration:
  assumes email: "formData_get (r_form req) ''email'' = Some (FStr address)" "address \<noteq> []"
    and password: "formData_get (r_form req) ''password'' = Some pw" "pw \<noteq> FStr []"
    and absent: "user_findUnique address s1 = None"
    and present: "user_findUnique address s2 = Some user"
    and rejects: "bcrypt_compare env pw (u_passwordHash user) = Inl msg"
    and other: "msg \<noteq> ''Invalid login credentials.''"
  shows "login_action env req s1 =
           Returned (Unauthorized (r_user req) ''Invalid login credentials.'')
       \<and> login_action env req s2 = Returned (Unauthorized (r_user req) msg)
       \<and> login_action env req s2 \<noteq> login_action env req s1"
proof -
  have v1: "verify env (r_form req) s1 = Inl (Error ''Invalid login credentials.'')"
    by (simp add: verify_def falsy_def email password absent)
  have v2: "verify env (r_form req) s2 = Inl (Error msg)"
    by (simp add: verify_def falsy_def email password present rejects)
  have a1: "login_action env req s1 =
      Returned (Unauthorized (r_user req) ''Invalid login credentials.'')"
    by (simp add: login_action_def v1 message_def)
  have a2: "login_action env req s2 = Returned (Unauthorized (r_user req) msg)"
    by (simp add: login_action_def v2 message_def)
  from other have "login_action env req s2 \<noteq> login_action env req s1"
    unfolding a1 a2 by simp
  with a1 a2 show ?thesis by (intro conjI)
qed

theorem file_password_reveals_registration:
  "user_findUnique ''alice@a.example'' sample_store = Some alice
   \<and> user_findUnique ''carol@c.example'' sample_store = None
   \<and> bcrypt_compare sample_env (FFile \<lparr>f_name = ''pw.txt'', f_size = 5\<rparr>)
        (u_passwordHash alice) = Inl ''Illegal arguments: object, string''
   \<and> login_action sample_env
       \<lparr>r_method = ''POST'', r_user = None,
        r_form = [(''email'', FStr ''alice@a.example''),
                  (''password'', FFile \<lparr>f_name = ''pw.txt'', f_size = 5\<rparr>)]\<rparr>
       sample_store =
     Returned (Unauthorized None ''Illegal arguments: object, string'')
   \<and> login_action sample_env
       \<lparr>r_method = ''POST'', r_user = None,
        r_form = [(''email'', FStr ''alice@a.example''),
                  (''password'', FFile \<lparr>f_name = ''pw.txt'', f_size = 5\<rparr>)]\<rparr>
       (sample_store\<lparr>users := [bob]\<rparr>) =
     Returned (Unauthorized None ''Invalid login credentials.'')
   \<and> login_action sample_env
       \<lparr>r_method = ''POST'', r_user = None,
        r_form = [(''email'', FStr ''carol@c.example''),
                  (''password'', FFile \<lparr>f_name = ''pw.txt'', f_size = 5\<rparr>)]\<rparr>
       sample_store =
     Returned (Unauthorized None ''Invalid login credentials.'')"
proof -
  let ?pw = "FFile \<lparr>f_name = ''pw.txt'', f_size = 5\<rparr>"
  let ?req = "\<lparr>r_method = ''POST'', r_user = None,
        r_form = [(''email'', FStr ''alice@a.example''), (''password'', ?pw)]\<rparr>"
  have email: "formData_get (r_form ?req) ''email'' = Some (FStr ''alice@a.example'')"
      "''alice@a.example'' \<noteq> []"
    and password: "formData_get (r_form ?req) ''password'' = Some ?pw" "?pw \<noteq> FStr []"
    by (simp_all add: formData_get_def)
  have absent: "user_findUnique ''alice@a.example'' (sample_store\<lparr>users := [bob]\<rparr>) = None"
    and present: "user_findUnique ''alice@a.example'' sample_store = Some alice"
    and unknown: "user_findUnique ''carol@c.example'' sample_store = None"
    by (simp_all add: user_findUnique_def sample_defs)
  have rejects: "bcrypt_compare sample_env ?pw (u_passwordHash alice) =
      Inl ''Illegal arguments: object, string''"
    by (simp add: sample_defs)
  have other: "''Illegal arguments: object, string'' \<noteq> ''Invalid login credentials.''"
    by simp
  note T = rejected_compare_reveals_registration
    [OF email password absent present rejects other]
  from T have r1: "login_action sample_env ?req sample_store =
      Returned (Unauthorized None ''Illegal arguments: object, string'')"
    by simp
  from T have r2: "login_action sample_env ?req (sample_store\<lparr>users := [bob]\<rparr>) =
      Returned (Unauthorized None ''Invalid login credentials.'')"
    by simp
  have r3: "login_action sample_env
       \<lparr>r_method = ''POST'', r_user = None,
        r_form = [(''email'', FStr ''carol@c.example''), (''password'', ?pw)]\<rparr>
       sample_store =
     Returned (Unauthorized None ''Invalid login credentials.'')"
    by code_simp
  from present unknown rejects r1 r2 r3 show ?thesis by (intro conjI)
qed

subsection \<open>Updating an event\<close>

lemma assign_Some: "assign (Some x) old = x"
  by (simp add: assign_def)

lemma z_string_Inr: "z_string check v = Inr x \<Longrightarrow> v = Some (FStr x) \<and> check x = []"
  by (auto simp: z_string_def split: option.splits formValue.splits if_splits)

lemma z_optional_string_Inr:
  "z_optional (z_string (\<lambda>_. [])) v = Inr x \<Longrightarrow>
     (v = None \<and> x = None) \<or> (\<exists>y. v = Some (FStr y) \<and> x = Some y)"
  by (auto simp: z_optional_def z_string_def split: option.splits formValue.splits sum.splits)

lemma z_refine_Inr: "z_refine ok msg r = Inr x \<Longrightarrow> r = Inr x \<and> ok x"
  by (auto simp: z_refine_def split: sum.splits if_splits)

lemma z_EventStatus_Inr:
  "z_EventStatus v = Inr st \<Longrightarrow> v = Some (FStr (EventStatus_name st))"
  by (cases st)
    (auto simp: z_EventStatus_def split: option.splits formValue.splits if_splits)

lemma EventSchema_Inr:
  assumes "EventSchema_safeParse env payload = Inr d"
  shows "map_of payload ''name'' = Some (FStr (ed_name d))"
    and "map_of payload ''dateStart'' = Some (FStr (ed_dateStart d))"
    and "Date_parse env (ed_dateStart d) \<noteq> None"
    and "(map_of payload ''dateEnd'' = None \<and> ed_dateEnd d = None) \<or>
         (\<exists>y. map_of payload ''dateEnd'' = Some (FStr y) \<and> ed_dateEnd d = Some y
              \<and> (y = [] \<or> Date_parse env y \<noteq> None))"
    and "(map_of payload ''description'' = None \<and> ed_description d = None) \<or>
         (\<exists>y. map_of payload ''description'' = Some (FStr y) \<and> ed_description d = Some y)"
    and "(map_of payload ''locationName'' = None \<and> ed_locationName d = None) \<or>
         (\<exists>y. map_of payload ''locationName'' = Some (FStr y) \<and> ed_locationName d = Some y)"
    and "(map_of payload ''locationAddress'' = None \<and> ed_locationAddress d = None) \<or>
         (\<exists>y. map_of payload ''locationAddress'' = Some (FStr y)
              \<and> ed_locationAddress d = Some y)"
    and "map_of payload ''status'' = Some (FStr (EventStatus_name (ed_status d)))"
    and "ed_isPublic d = (map_of payload ''isPublic'' = Some (FStr ''on''))"
proof -
  define rn where "rn = z_string (z_min1 ''Event name is required'') (map_of payload ''name'')"
  define rds where "rds = z_refine (\<lambda>date. Date_parse env date \<noteq> None) ''Invalid start date''
                        (z_string (\<lambda>_. []) (map_of payload ''dateStart''))"
  define rde where "rde = z_refine (\<lambda>date. case date of None \<Rightarrow> True
                                       | Some x \<Rightarrow> x = [] \<or> Date_parse env x \<noteq> None)
                      ''Invalid end date''
                      (z_optional (z_string (\<lambda>_. [])) (map_of payload ''dateEnd''))"
  define rd where "rd = z_optional (z_string (\<lambda>_. [])) (map_of payload ''description'')"
  define rln where "rln = z_optional (z_string (\<lambda>_. [])) (map_of payload ''locationName'')"
  define rla where "rla = z_optional (z_string (\<lambda>_. [])) (map_of payload ''locationAddress'')"
  define rst where "rst = z_EventStatus (map_of payload ''status'')"
  from assms have "(case (rn, rds, rde, rd, rln, rla, rst) of
           (Inr n, Inr ds, Inr de, Inr d, Inr ln, Inr la, Inr st) \<Rightarrow>
             Inr \<lparr>ed_name = n, ed_dateStart = ds, ed_dateEnd = de, ed_description = d,
                  ed_locationName = ln, ed_locationAddress = la, ed_status = st,
                  ed_isPublic = (map_of payload ''isPublic'' = Some (FStr ''on''))\<rparr>
         | _ \<Rightarrow>
             Inl (fieldErrors
               [(''name'', issues rn), (''dateStart'', issues rds),
                (''dateEnd'', issues rde), (''description'', issues rd),
                (''locationName'', issues rln),
                (''locationAddress'', issues rla), (''status'', issues rst)])) = Inr d"
    unfolding EventSchema_safeParse_def Let_def rn_def rds_def rde_def rd_def rln_def rla_def
      rst_def .
  then have all: "rn = Inr (ed_name d)" "rds = Inr (ed_dateStart d)" "rde = Inr (ed_dateEnd d)"
    "rd = Inr (ed_description d)" "rln = Inr (ed_locationName d)"
    "rla = Inr (ed_locationAddress d)" "rst = Inr (ed_status d)"
    "ed_isPublic d = (map_of payload ''isPublic'' = Some (FStr ''on''))"
    by (auto split: sum.splits)
  from all(1) show "map_of payload ''name'' = Some (FStr (ed_name d))"
    unfolding rn_def by (blast dest: z_string_Inr)
  from all(2) have "z_string (\<lambda>_. []) (map_of payload ''dateStart'') = Inr (ed_dateStart d)"
    and ds: "Date_parse env (ed_dateStart d) \<noteq> None"
    unfolding rds_def by (blast dest: z_refine_Inr)+
  then show "map_of payload ''dateStart'' = Some (FStr (ed_dateStart d))"
    by (blast dest: z_string_Inr)
  from ds show "Date_parse env (ed_dateStart d) \<noteq> None" .
  from all(3) have "z_optional (z_string (\<lambda>_. [])) (map_of payload ''dateEnd'') = Inr (ed_dateEnd d)"
    and "case ed_dateEnd d of None \<Rightarrow> True | Some x \<Rightarrow> x = [] \<or> Date_parse env x \<noteq> None"
    unfolding rde_def by (blast dest: z_refine_Inr)+
  then show "(map_of payload ''dateEnd'' = None \<and> ed_dateEnd d = None) \<or>
         (\<exists>y. map_of payload ''dateEnd'' = Some (FStr y) \<and> ed_dateEnd d = Some y
              \<and> (y = [] \<or> Date_parse env y \<noteq> None))"
    by (auto dest: z_optional_string_Inr)
  from all(4) show "(map_of payload ''description'' = None \<and> ed_description d = None) \<or>
         (\<exists>y. map_of payload ''description'' = Some (FStr y) \<and> ed_description d = Some y)"
    unfolding rd_def by (rule z_optional_string_Inr)
  from all(5) show "(map_of payload ''locationName'' = None \<and> ed_locationName d = None) \<or>
         (\<exists>y. map_of payload ''locationName'' = Some (FStr y) \<and> ed_locationName d = Some y)"
    unfolding rln_def by (rule z_optional_string_Inr)
  from all(6) show "(map_of payload ''locationAddress'' = None \<and> ed_locationAddress d = None) \<or>
         (\<exists>y. map_of payload ''locationAddress'' = Some (FStr y)
              \<and> ed_locationAddress d = Some y)"
    unfolding rla_def by (rule z_optional_string_Inr)
  from all(7) show "map_of payload ''status'' = Some (FStr (EventStatus_name (ed_status d)))"
    unfolding rst_def by (rule z_EventStatus_Inr)
  from all(8) show "ed_isPublic d = (map_of payload ''isPublic'' = Some (FStr ''on''))" .
qed

text \<open>
  Claim C6, as the action has it. Whenever the edit action succeeds (it returns the
  redirect to the event page), the event row of that id has name, dateStart, status and
  isPublic overwritten with the submitted values (isPublic is true exactly for the checkbox
  value \<^verbatim>\<open>on\<close>) and dateEnd overwritten with the submitted date, or cleared when the
  entry is missing or empty. Each of description, locationName and locationAddress is
  overwritten with the submitted text when the form has the entry, and keeps its stored
  value when the form has no such entry. No other event row changes.
\<close>

theorem update_event_overwrites:
  assumes ok: "eventId_edit_action env req eventId w = (Returned (Redirect url), w')"
  shows "\<exists>name dateText dateStart st.
           map_of (fromEntries (r_form req)) ''name'' = Some (FStr name)
         \<and> map_of (fromEntries (r_form req)) ''dateStart'' = Some (FStr dateText)
         \<and> Date_parse env dateText = Some dateStart
         \<and> map_of (fromEntries (r_form req)) ''status'' = Some (FStr (EventStatus_name st))
         \<and> events (w_db w') =
             map (\<lambda>e. if ev_id e = eventId then
                    e\<lparr>ev_name := name,
                      ev_dateStart := dateStart,
                      ev_dateEnd :=
                        (case map_of (fromEntries (r_form req)) ''dateEnd'' of
                           Some (FStr x) \<Rightarrow> if x = [] then None else Date_parse env x
                         | _ \<Rightarrow> None),
                      ev_description :=
                        (case map_of (fromEntries (r_form req)) ''description'' of
                           Some (FStr x) \<Rightarrow> Some x | _ \<Rightarrow> ev_description e),
                      ev_locationName :=
                        (case map_of (fromEntries (r_form req)) ''locationName'' of
                           Some (FStr x) \<Rightarrow> Some x | _ \<Rightarrow> ev_locationName e),
                      ev_locationAddress :=
                        (case map_of (fromEntries (r_form req)) ''locationAddress'' of
                           Some (FStr x) \<Rightarrow> Some x | _ \<Rightarrow> ev_locationAddress e),
                      ev_status := st,
                      ev_isPublic :=
                        (map_of (fromEntries (r_form req)) ''isPublic'' = Some (FStr ''on'')),
                      ev_updatedAt := db_now env\<rparr>
                  else e)
               (events (w_db w))"
proof -
  let ?payload = "fromEntries (r_form req)"
  from ok obtain d dd where
    parsed: "EventSchema_safeParse env ?payload = Inr d"
    and data: "update_data env d = Inr dd"
    and wr: "db_write (UpdateEvent eventId dd (db_now env)) w = Inr w'"
    by (auto simp: eventId_edit_action_def Let_def
        split: sum.splits option.splits if_splits)
  note P = EventSchema_Inr [OF parsed]
  from P(3) obtain dateStart where ds: "Date_parse env (ed_dateStart d) = Some dateStart"
    by blast
  define dateEnd where "dateEnd =
     (case map_of ?payload ''dateEnd'' of
        Some (FStr x) \<Rightarrow> if x = [] then None else Date_parse env x | _ \<Rightarrow> None)"
  from P(4) have de: "(case ed_dateEnd d of
                   None \<Rightarrow> Inr None
                 | Some x \<Rightarrow>
                     if x = [] then Inr None
                     else (case Date_parse env x of
                             None \<Rightarrow> Inl ValidationError
                           | Some t \<Rightarrow> Inr (Some t))) = Inr dateEnd"
    unfolding dateEnd_def by auto
  from data have dd: "dd = \<lparr>upd_name = Some (ed_name d), upd_dateStart = Some dateStart,
                    upd_dateEnd = Some dateEnd,
                    upd_description = map_option Some (ed_description d),
                    upd_locationName = map_option Some (ed_locationName d),
                    upd_locationAddress = map_option Some (ed_locationAddress d),
                    upd_status = Some (ed_status d), upd_isPublic = Some (ed_isPublic d)\<rparr>"
    unfolding update_data_def ds de by simp
  have desc: "assign (map_option Some (ed_description d)) old =
      (case map_of ?payload ''description'' of Some (FStr x) \<Rightarrow> Some x | _ \<Rightarrow> old)" for old
    using P(5) by (auto simp: assign_def)
  have locn: "assign (map_option Some (ed_locationName d)) old =
      (case map_of ?payload ''locationName'' of Some (FStr x) \<Rightarrow> Some x | _ \<Rightarrow> old)" for old
    using P(6) by (auto simp: assign_def)
  have loca: "assign (map_option Some (ed_locationAddress d)) old =
      (case map_of ?payload ''locationAddress'' of Some (FStr x) \<Rightarrow> Some x | _ \<Rightarrow> old)" for old
    using P(7) by (auto simp: assign_def)
  have upd: "apply_update dd (db_now env) e =
      e\<lparr>ev_name := ed_name d, ev_dateStart := dateStart, ev_dateEnd := dateEnd,
        ev_description :=
          (case map_of ?payload ''description'' of
             Some (FStr x) \<Rightarrow> Some x | _ \<Rightarrow> ev_description e),
        ev_locationName :=
          (case map_of ?payload ''locationName'' of
             Some (FStr x) \<Rightarrow> Some x | _ \<Rightarrow> ev_locationName e),
        ev_locationAddress :=
          (case map_of ?payload ''locationAddress'' of
             Some (FStr x) \<Rightarrow> Some x | _ \<Rightarrow> ev_locationAddress e),
        ev_status := ed_status d,
        ev_isPublic := (map_of ?payload ''isPublic'' = Some (FStr ''on'')),
        ev_updatedAt := db_now env\<rparr>" for e
    unfolding apply_update_def dd by (simp add: desc locn loca assign_Some P(9))
  from wr have "events (w_db w') =
      map (\<lambda>e. if ev_id e = eventId then apply_update dd (db_now env) e else e)
        (events (w_db w))"
    by (auto simp: db_write_def event_update_def split: sum.splits if_splits)
  then have "events (w_db w') =
      map (\<lambda>e. if ev_id e = eventId then
             e\<lparr>ev_name := ed_name d, ev_dateStart := dateStart, ev_dateEnd := dateEnd,
               ev_description :=
                 (case map_of ?payload ''description'' of
                    Some (FStr x) \<Rightarrow> Some x | _ \<Rightarrow> ev_description e),
               ev_locationName :=
                 (case map_of ?payload ''locationName'' of
                    Some (FStr x) \<Rightarrow> Some x | _ \<Rightarrow> ev_locationName e),
               ev_locationAddress :=
                 (case map_of ?payload ''locationAddress'' of
                    Some (FStr x) \<Rightarrow> Some x | _ \<Rightarrow> ev_locationAddress e),
               ev_status := ed_status d,
               ev_isPublic := (map_of ?payload ''isPublic'' = Some (FStr ''on'')),
               ev_updatedAt := db_now env\<rparr>
           else e)
        (events (w_db w))"
    unfolding upd .
  with P(1,2,8) ds show ?thesis
    unfolding dateEnd_def by blast
qed

theorem update_event_overwrites_witness:
  "fst (eventId_edit_action sample_env
          (request_of alice ''POST''
             [(''name'', FStr ''Gala 2''), (''dateStart'', FStr ''2025-05-01''),
              (''dateEnd'', FStr []), (''description'', FStr ''New text''),
              (''status'', FStr ''ACTIVE''), (''isPublic'', FStr ''on'')])
          ''e1'' sample_world) = Returned (Redirect ''/org/events/e1'')
   \<and> events (w_db (snd (eventId_edit_action sample_env
          (request_of alice ''POST''
             [(''name'', FStr ''Gala 2''), (''dateStart'', FStr ''2025-05-01''),
              (''dateEnd'', FStr []), (''description'', FStr ''New text''),
              (''status'', FStr ''ACTIVE''), (''isPublic'', FStr ''on'')])
          ''e1'' sample_world))) =
       [gala\<lparr>ev_name := ''Gala 2'', ev_dateStart := 1746057600000, ev_dateEnd := None,
             ev_description := Some ''New text'', ev_status := ACTIVE, ev_isPublic := True,
             ev_updatedAt := 1001\<rparr>]"
proof -
  let ?req = "request_of alice ''POST''
             [(''name'', FStr ''Gala 2''), (''dateStart'', FStr ''2025-05-01''),
              (''dateEnd'', FStr []), (''description'', FStr ''New text''),
              (''status'', FStr ''ACTIVE''), (''isPublic'', FStr ''on'')]"
  have r1: "fst (eventId_edit_action sample_env ?req ''e1'' sample_world) =
      Returned (Redirect ''/org/events/e1'')"
    by code_simp
  have r2: "events (w_db (snd (eventId_edit_action sample_env ?req ''e1'' sample_world))) =
       [gala\<lparr>ev_name := ''Gala 2'', ev_dateStart := 1746057600000, ev_dateEnd := None,
             ev_description := Some ''New text'', ev_status := ACTIVE, ev_isPublic := True,
             ev_updatedAt := 1001\<rparr>]"
    by code_simp
  from r1 have ok: "eventId_edit_action sample_env ?req ''e1'' sample_world =
      (Returned (Redirect ''/org/events/e1''),
       snd (eventId_edit_action sample_env ?req ''e1'' sample_world))"
    by (simp add: prod_eq_iff)
  show ?thesis
    using update_event_overwrites [OF ok] by - (intro conjI, (rule r1 r2)+)
qed

text \<open>
  Claim C6 as stated fails for a text field that the form omits: the stored description
  survives a successful update whose form has no \<^verbatim>\<open>description\<close> entry.
\<close>

theorem omitted_description_is_kept:
  "map_of (fromEntries (r_form (request_of alice ''POST''
             [(''name'', FStr ''Spring Gala''), (''dateStart'', FStr ''2025-05-01''),
              (''status'', FStr ''ACTIVE'')]))) ''description'' = None
   \<and> map ev_description (events (w_db sample_world)) = [Some ''Annual dinner'']
   \<and> fst (eventId_edit_action sample_env
          (request_of alice ''POST''
             [(''name'', FStr ''Spring Gala''), (''dateStart'', FStr ''2025-05-01''),
              (''status'', FStr ''ACTIVE'')])
          ''e1'' sample_world) = Returned (Redirect ''/org/events/e1'')
   \<and> map ev_description (events (w_db (snd (eventId_edit_action sample_env
          (request_of alice ''POST''
             [(''name'', FStr ''Spring Gala''), (''dateStart'', FStr ''2025-05-01''),
              (''status'', FStr ''ACTIVE'')])
          ''e1'' sample_world)))) = [Some ''Annual dinner'']"
  by code_simp

subsection \<open>Events of another organization\<close>

lemma run_without_event:
  assumes auth: "r_user req = Some u" and eid: "eventId \<noteq> []"
    and org: "organizationUser_findFirst (su_id u) (w_db w) = Some orgUser"
    and none: "\<forall>e \<in> set (events (w_db w)). \<not> (ev_id e = eventId \<and> ev_orgId e = ou_orgId orgUser)"
  shows "run env h req eventId w =
     (case h of
        EventLoader \<Rightarrow> ThrownResponse (Text 404 ''Event not found or access denied'')
      | EventAction \<Rightarrow>
          Returned (Json 404 (JObj [(''error'', JStr ''Event not found or access denied'')]))
      | EventEditLoader \<Rightarrow> ThrownResponse (Text 404 ''Event not found or access denied'')
      | EventEditAction \<Rightarrow>
          (case EventSchema_safeParse env (fromEntries (r_form req)) of
             Inl errors \<Rightarrow>
               Returned (Json 400 (JObj [(''errors'', errors),
                  (''values'', JObj (json_of_payload (fromEntries (r_form req))))]))
           | Inr result \<Rightarrow> ThrownResponse (Text 404 ''Event not found or access denied''))
      | EventDeleteAction \<Rightarrow>
          if r_method req \<noteq> ''POST''
          then Returned (Json 405 (JObj [(''message'', JStr ''Method not allowed'')]))
          else Returned (Json 404
                 (JObj [(''message'', JStr ''Event not found or access denied'')]))
      | ParticipantsLoader \<Rightarrow>
          ThrownResponse (Text 404 ''Event not found or access denied'')
      | ParticipantsNewAction \<Rightarrow>
          Returned (Json 404 (JObj [(''errors'', JObj [(''form'',
             JStr ''Event not found or access denied'')])])),
      w)"
proof -
  from none have f: "event_findFirst eventId (ou_orgId orgUser) (w_db w) = None"
    and g: "event_findUnique eventId (ou_orgId orgUser) (w_db w) = None"
    by (simp_all add: event_findFirst_def event_findUnique_def find_None_iff)
  show ?thesis
  proof (cases h)
    case EventLoader
    then show ?thesis using auth eid org g
      by (simp add: eventId_loader_def requireUser_def)
  next
    case EventAction
    then show ?thesis using auth eid org f
      by (simp add: eventId_action_def requireUser_def)
  next
    case EventEditLoader
    then show ?thesis using auth eid org g
      by (simp add: eventId_edit_loader_def requireUser_def)
  next
    case EventEditAction
    then show ?thesis using auth eid org f
      by (simp add: eventId_edit_action_def requireUser_def Let_def split: sum.splits)
  next
    case EventDeleteAction
    then show ?thesis using auth eid org f
      by (simp add: eventId_delete_action_def requireUser_def)
  next
    case ParticipantsLoader
    then show ?thesis using auth eid org f
      by (simp add: participants_loader_def requireUser_def)
  next
    case ParticipantsNewAction
    then show ?thesis using auth eid org f
      by (simp add: participants_new_action_def requireUser_def)
  qed
qed

lemma only_membership:
  assumes member: "\<exists>m \<in> set (organizationUsers s). ou_userId m = uid"
    and only: "\<forall>m \<in> set (organizationUsers s). ou_userId m = uid \<longrightarrow> ou_orgId m = org'"
  shows "\<exists>orgUser. organizationUser_findFirst uid s = Some orgUser \<and> ou_orgId orgUser = org'"
  using organizationUser_findFirst_member [OF member] only by blast

text \<open>
  Claim C1, as the handlers have it. Let an event belong to an organization other than the
  one of the user's only membership. Every handler addressed by the event's id leaves the
  store and the trace as they were and answers exactly as it does in a world that has no
  event of that id at all. The answer has status 404 whenever the handler reaches the event
  lookup, which every handler does except two: the edit action validates the form first and
  answers a form that fails the schema with 400, and the delete action checks the method
  first and answers a method other than POST with 405.
\<close>

theorem cross_tenant_not_found:
  assumes auth: "r_user req = Some u" and eid: "eventId \<noteq> []"
    and member: "\<exists>m \<in> set (organizationUsers (w_db w)). ou_userId m = su_id u"
    and only: "\<forall>m \<in> set (organizationUsers (w_db w)). ou_userId m = su_id u \<longrightarrow> ou_orgId m = org'"
    and event: "\<exists>e \<in> set (events (w_db w)). ev_id e = eventId \<and> ev_orgId e \<noteq> org'"
    and pk: "distinct (map ev_id (events (w_db w)))"
    and member0: "\<exists>m \<in> set (organizationUsers (w_db w0)). ou_userId m = su_id u"
    and absent0: "\<forall>e \<in> set (events (w_db w0)). ev_id e \<noteq> eventId"
  shows "snd (run env h req eventId w) = w
       \<and> fst (run env h req eventId w) = fst (run env h req eventId w0)
       \<and> (reaches_lookup env h req \<longrightarrow> http_status (fst (run env h req eventId w)) = Some 404)
       \<and> (\<not> reaches_lookup env h req \<longrightarrow>
            http_status (fst (run env h req eventId w)) =
              Some (if h = EventEditAction then 400 else 405))"
proof -
  from only_membership [OF member only] obtain orgUser where
    org: "organizationUser_findFirst (su_id u) (w_db w) = Some orgUser"
    and org': "ou_orgId orgUser = org'" by blast
  from event obtain e0 where e0: "e0 \<in> set (events (w_db w))" "ev_id e0 = eventId"
    "ev_orgId e0 \<noteq> org'" by blast
  from pk have inj: "inj_on ev_id (set (events (w_db w)))" by (simp add: distinct_map)
  have none: "\<forall>e \<in> set (events (w_db w)). \<not> (ev_id e = eventId \<and> ev_orgId e = ou_orgId orgUser)"
  proof (intro ballI notI)
    fix e
    assume mem: "e \<in> set (events (w_db w))"
      and hit: "ev_id e = eventId \<and> ev_orgId e = ou_orgId orgUser"
    from inj_onD [OF inj, of e e0] mem e0 hit have "e = e0" by simp
    with hit e0 org' show False by simp
  qed
  from organizationUser_findFirst_member [OF member0] obtain orgUser0 where
    org0: "organizationUser_findFirst (su_id u) (w_db w0) = Some orgUser0"
    by blast
  from absent0 have none0:
    "\<forall>e \<in> set (events (w_db w0)). \<not> (ev_id e = eventId \<and> ev_orgId e = ou_orgId orgUser0)"
    by blast
  note R = run_without_event [OF auth eid org none, of env h]
  note R0 = run_without_event [OF auth eid org0 none0, of env h]
  have 1: "snd (run env h req eventId w) = w"
    unfolding R by simp
  have 2: "fst (run env h req eventId w) = fst (run env h req eventId w0)"
    unfolding R R0 by simp
  have 3: "reaches_lookup env h req \<longrightarrow> http_status (fst (run env h req eventId w)) = Some 404"
    unfolding R by (cases h) (auto split: sum.splits)
  have 4: "\<not> reaches_lookup env h req \<longrightarrow>
            http_status (fst (run env h req eventId w)) =
              Some (if h = EventEditAction then 400 else 405)"
    unfolding R by (cases h) (auto split: sum.splits)
  from 1 2 3 4 show ?thesis by (intro conjI)
qed

theorem cross_tenant_not_found_witness:
  "map ou_orgId (organizationUsers (w_db sample_world)) = [''o1'', ''o2'']
   \<and> map ou_userId (organizationUsers (w_db sample_world)) = [''u1'', ''u2'']
   \<and> map ev_id (events (w_db sample_world)) = [''e1'']
   \<and> map ev_orgId (events (w_db sample_world)) = [''o1'']
   \<and> run sample_env EventAction
       (request_of bob ''POST''
          [(''intent'', FStr ''deletePhoto''), (''photoId'', FStr ''ph1'')])
       ''e1'' sample_world =
       (Returned (Json 404 (JObj [(''error'', JStr ''Event not found or access denied'')])),
        sample_world)
   \<and> fst (run sample_env EventAction
       (request_of bob ''POST''
          [(''intent'', FStr ''deletePhoto''), (''photoId'', FStr ''ph1'')])
       ''e1'' (sample_world\<lparr>w_db := sample_store\<lparr>events := [], participants := [],
          eventPhotos := [], detectedFaces := [], photoParticipantMatches := [],
          faceMatchingTasks := [], consentLogs := []\<rparr>\<rparr>)) =
       Returned (Json 404 (JObj [(''error'', JStr ''Event not found or access denied'')]))
   \<and> run sample_env EventEditAction (request_of bob ''POST'' [(''name'', FStr [])])
       ''e1'' sample_world =
       (Returned (Json 400 (JObj
          [(''errors'', JObj [(''name'', JArr [JIssue (Custom ''Event name is required'')]),
                             (''dateStart'', JArr [JIssue Required]),
                             (''status'', JArr [JIssue Required])]),
           (''values'', JObj [(''name'', JStr [])])])),
        sample_world)"
proof -
  let ?req = "request_of bob ''POST''
                [(''intent'', FStr ''deletePhoto''), (''photoId'', FStr ''ph1'')]"
  let ?bad = "request_of bob ''POST'' [(''name'', FStr [])]"
  let ?w0 = "sample_world\<lparr>w_db := sample_store\<lparr>events := [], participants := [],
          eventPhotos := [], detectedFaces := [], photoParticipantMatches := [],
          faceMatchingTasks := [], consentLogs := []\<rparr>\<rparr>"
  have auth: "r_user ?req = Some (userWithoutPassword bob)"
    and auth': "r_user ?bad = Some (userWithoutPassword bob)"
    by (simp_all add: request_of_def)
  have eid: "''e1'' \<noteq> []" by simp
  have member: "\<exists>m \<in> set (organizationUsers (w_db sample_world)).
                  ou_userId m = su_id (userWithoutPassword bob)"
    and only: "\<forall>m \<in> set (organizationUsers (w_db sample_world)).
                  ou_userId m = su_id (userWithoutPassword bob) \<longrightarrow> ou_orgId m = ''o2''"
    and event: "\<exists>e \<in> set (events (w_db sample_world)). ev_id e = ''e1'' \<and> ev_orgId e \<noteq> ''o2''"
    and pk: "distinct (map ev_id (events (w_db sample_world)))"
    and member0: "\<exists>m \<in> set (organizationUsers (w_db ?w0)).
                  ou_userId m = su_id (userWithoutPassword bob)"
    and absent0: "\<forall>e \<in> set (events (w_db ?w0)). ev_id e \<noteq> ''e1''"
    by (simp_all add: sample_defs)
  note T = cross_tenant_not_found [OF auth eid member only event pk member0 absent0,
      of sample_env EventAction]
  note T' = cross_tenant_not_found [OF auth' eid member only event pk member0 absent0,
      of sample_env EventEditAction]
  have a: "map ou_orgId (organizationUsers (w_db sample_world)) = [''o1'', ''o2'']"
    and b: "map ou_userId (organizationUsers (w_db sample_world)) = [''u1'', ''u2'']"
    and c: "map ev_id (events (w_db sample_world)) = [''e1'']"
    and d: "map ev_orgId (events (w_db sample_world)) = [''o1'']"
    by (simp_all add: sample_defs)
  have r0: "fst (run sample_env EventAction ?req ''e1'' ?w0) =
       Returned (Json 404 (JObj [(''error'', JStr ''Event not found or access denied'')]))"
    by code_simp
  with T have "fst (run sample_env EventAction ?req ''e1'' sample_world) =
       Returned (Json 404 (JObj [(''error'', JStr ''Event not found or access denied'')]))"
    and "snd (run sample_env EventAction ?req ''e1'' sample_world) = sample_world"
    by simp_all
  then have r1: "run sample_env EventAction ?req ''e1'' sample_world =
       (Returned (Json 404 (JObj [(''error'', JStr ''Event not found or access denied'')])),
        sample_world)"
    by (simp add: prod_eq_iff)
  have "fst (run sample_env EventEditAction ?bad ''e1'' sample_world) =
       Returned (Json 400 (JObj
          [(''errors'', JObj [(''name'', JArr [JIssue (Custom ''Event name is required'')]),
                             (''dateStart'', JArr [JIssue Required]),
                             (''status'', JArr [JIssue Required])]),
           (''values'', JObj [(''name'', JStr [])])]))"
    by code_simp
  moreover from T' have "snd (run sample_env EventEditAction ?bad ''e1'' sample_world) =
      sample_world" by simp
  ultimately have r2: "run sample_env EventEditAction ?bad ''e1'' sample_world =
       (Returned (Json 400 (JObj
          [(''errors'', JObj [(''name'', JArr [JIssue (Custom ''Event name is required'')]),
                             (''dateStart'', JArr [JIssue Required]),
                             (''status'', JArr [JIssue Required])]),
           (''values'', JObj [(''name'', JStr [])])])),
        sample_world)"
    by (simp add: prod_eq_iff)
  from a b c d r1 r0 r2 show ?thesis by (intro conjI)
qed

text \<open>
  Claim C1 as stated fails for the update: a user of another organization who submits an
  edit form that fails the schema is answered 400, not 404.
\<close>

theorem cross_tenant_invalid_update_is_400:
  "map ou_userId (organizationUsers (w_db sample_world)) = [''u1'', ''u2'']
   \<and> map ou_orgId (organizationUsers (w_db sample_world)) = [''o1'', ''o2'']
   \<and> map ev_id (events (w_db sample_world)) = [''e1'']
   \<and> map ev_orgId (events (w_db sample_world)) = [''o1'']
   \<and> r_user (request_of bob ''POST'' [(''name'', FStr [])]) = Some (userWithoutPassword bob)
   \<and> su_id (userWithoutPassword bob) = ''u2''
   \<and> http_status (fst (run sample_env EventEditAction
        (request_of bob ''POST'' [(''name'', FStr [])]) ''e1'' sample_world)) = Some 400"
  by code_simp

end
